theory Spec2Isabelle
  imports Main
begin

section \<open>JavaScript values\<close>

text \<open>
  The values that flow through \<^verbatim>\<open>packages/sol-cli/cmd/deploy.js\<close>: option values as
  the command-line parser hands them over (a number where a default applies, a string where
  the user gave the flag), big numbers of the chain client library, arrays of strings
  (the empty array included) and \<^verbatim>\<open>undefined\<close>.
\<close>

datatype jsval = JUndefined | JNum int | JStr string | JBig int | JArr "string list"

definition digit :: "nat \<Rightarrow> char" where
  "digit n = ''0123456789'' ! (n mod 10)"

function show_nat :: "nat \<Rightarrow> string" where
  "show_nat n = (if n < 10 then [digit n] else show_nat (n div 10) @ [digit n])"
  by pat_completeness auto
termination
  by (relation "measure id") auto

definition show_int :: "int \<Rightarrow> string" where
  "show_int i = (if i < 0 then CHR ''-'' # show_nat (nat (- i)) else show_nat (nat i))"

fun join :: "string \<Rightarrow> string list \<Rightarrow> string" where
  "join sep [] = []"
| "join sep [x] = x"
| "join sep (x # y # ys) = x @ sep @ join sep (y # ys)"

text \<open>
  \<^verbatim>\<open>x.toString()\<close> and the conversion a template literal applies to \<^verbatim>\<open>${x}\<close>.
  Integral numbers print in decimal (the numbers of this program are the defaults
  0, 2, 18 and 100), an array joins its elements with a comma.
\<close>

fun toString :: "jsval \<Rightarrow> string" where
  "toString JUndefined = ''undefined''"
| "toString (JNum n) = show_int n"
| "toString (JStr s) = s"
| "toString (JBig n) = show_int n"
| "toString (JArr xs) = join '','' xs"

text \<open>Truthiness of an address field: \<^verbatim>\<open>undefined\<close> and the empty string are falsy.\<close>

fun truthy :: "string option \<Rightarrow> bool" where
  "truthy None = False"
| "truthy (Some s) = (s \<noteq> [])"

section \<open>Errors\<close>

text \<open>
  \<open>Error\<close> is \<^verbatim>\<open>throw new Error(msg)\<close> of this file, \<open>RpcError\<close> a rejected call to the
  chain (balance query, contract creation, confirmation), \<open>LibraryError\<close> an exception
  thrown by a utility of the client library.
\<close>

datatype error = Error string | RpcError string | LibraryError string

definition NoTargetSpecified :: error where
  "NoTargetSpecified = Error ''must specify --all or specific contracts to deploy''"

section \<open>The execution context\<close>

text \<open>
  The \<^verbatim>\<open>args\<close> object after \<^verbatim>\<open>setupParentArgs\<close> has filled in the endpoint, the wallet
  and the gas parameters. The four \<^verbatim>\<open>...Contract\<close> fields and \<^verbatim>\<open>cost\<close> do not exist
  until the program assigns them; \<^verbatim>\<open>bridgeAddress\<close> is an option with default \<^verbatim>\<open>""\<close>.
\<close>

record args =
  url :: string
  wallet_address :: string
  gasLimit :: int
  gasPrice :: int
  chainId :: jsval
  relayers :: "string list"
  relayerThreshold :: jsval
  fee :: jsval
  expiry :: jsval
  all_flag :: bool
  bridge :: bool
  erc20Handler :: bool
  genericHandler :: bool
  bridgeAddress :: string
  erc20 :: bool
  erc20Symbol :: string
  erc20Name :: string
  erc20Decimals :: jsval
  asset :: bool
  config :: bool
  erc20HandlerContract :: "string option"
  genericHandlerContract :: "string option"
  erc20Contract :: "string option"
  ChainAssetContract :: "string option"
  cost :: "int option"

section \<open>The chain and the imported helpers\<close>

datatype contractKind = Bridge | Erc20Handler | GenericHandler | Erc20Mintable | ChainAsset

text \<open>
  A network call: a balance query, a contract creation (contract, constructor arguments,
  gas price, gas limit), a wait for the confirmation of a created contract.
\<close>

datatype call =
    GetBalance string
  | Deploy contractKind "jsval list" int int
  | Deployed contractKind string

datatype reply = Failed string | Balance int | Created string | Mined

type_synonym trace = "(call \<times> reply) list"

text \<open>
  The chain answers each call from the calls made so far and the call itself:
  \<open>Inl\<close> is a rejection with its message.
\<close>

record chain =
  getBalance :: "trace \<Rightarrow> string \<Rightarrow> string + int"
  deploy :: "trace \<Rightarrow> contractKind \<Rightarrow> jsval list \<Rightarrow> int \<Rightarrow> int \<Rightarrow> string + string"
  deployed :: "trace \<Rightarrow> contractKind \<Rightarrow> string \<Rightarrow> string + unit"

text \<open>
  The helpers the file imports and whose code is elsewhere: \<^verbatim>\<open>isValidAddress\<close> of
  \<^verbatim>\<open>./utils\<close>, \<^verbatim>\<open>parseEther\<close> and \<^verbatim>\<open>formatEther\<close> of the client library. They are
  parameters of the model; \<open>Inl\<close> is the message of a thrown exception.
\<close>

record deps =
  isValidAddress :: "string \<Rightarrow> bool"
  parseEther :: "string \<Rightarrow> string + int"
  formatEther :: "int \<Rightarrow> string"

text \<open>
  Modelled from the spec: \<^verbatim>\<open>BigNumber.toNumber()\<close> of the client library, which is not
  part of the sources at hand. The conversion to a plain number succeeds inside the safe
  integer range, up to \<open>2 ^ 53 - 1\<close> in magnitude, and throws beyond it.
\<close>

definition toNumber :: "int \<Rightarrow> string + int" where
  "toNumber n = (if \<bar>n\<bar> \<le> 2 ^ 53 - 1 then Inr n else Inl ''overflow'')"

section \<open>State and sequencing\<close>

datatype logged = Line string | Summary "string list" | Json "(string \<times> jsval) list"

record state =
  ctx :: args
  net :: trace
  console :: "logged list"

type_synonym 'a js = "state \<Rightarrow> (error + 'a) \<times> state"

definition return :: "'a \<Rightarrow> 'a js" where
  "return x s = (Inr x, s)"

definition throw :: "error \<Rightarrow> 'a js" where
  "throw e s = (Inl e, s)"

text \<open>
  \<open>await m k\<close> runs \<open>m\<close> and, unless it threw, continues with \<open>k\<close> on its value; an
  exception leaves the state as it was when thrown and skips the rest.
\<close>

definition await :: "'a js \<Rightarrow> ('a \<Rightarrow> 'b js) \<Rightarrow> 'b js" where
  "await m k s = (case m s of (Inl e, s') \<Rightarrow> (Inl e, s') | (Inr x, s') \<Rightarrow> k x s')"

definition console_log :: "logged \<Rightarrow> unit js" where
  "console_log x s = (Inr (), s\<lparr>console := console s @ [x]\<rparr>)"

definition assign :: "(args \<Rightarrow> args) \<Rightarrow> unit js" where
  "assign f s = (Inr (), s\<lparr>ctx := f (ctx s)\<rparr>)"

definition provider_getBalance :: "chain \<Rightarrow> string \<Rightarrow> int js" where
  "provider_getBalance ch addr s =
     (case getBalance ch (net s) addr of
        Inl m \<Rightarrow> (Inl (RpcError m), s\<lparr>net := net s @ [(GetBalance addr, Failed m)]\<rparr>)
      | Inr b \<Rightarrow> (Inr b, s\<lparr>net := net s @ [(GetBalance addr, Balance b)]\<rparr>))"

definition factory_deploy :: "chain \<Rightarrow> contractKind \<Rightarrow> jsval list \<Rightarrow> int \<Rightarrow> int \<Rightarrow> string js" where
  "factory_deploy ch k as gp gl s =
     (case deploy ch (net s) k as gp gl of
        Inl m \<Rightarrow> (Inl (RpcError m), s\<lparr>net := net s @ [(Deploy k as gp gl, Failed m)]\<rparr>)
      | Inr addr \<Rightarrow> (Inr addr, s\<lparr>net := net s @ [(Deploy k as gp gl, Created addr)]\<rparr>))"

definition contract_deployed :: "chain \<Rightarrow> contractKind \<Rightarrow> string \<Rightarrow> unit js" where
  "contract_deployed ch k addr s =
     (case deployed ch (net s) k addr of
        Inl m \<Rightarrow> (Inl (RpcError m), s\<lparr>net := net s @ [(Deployed k addr, Failed m)]\<rparr>)
      | Inr u \<Rightarrow> (Inr (), s\<lparr>net := net s @ [(Deployed k addr, Mined)]\<rparr>))"

section \<open>The deploy functions\<close>

definition check_mark :: string where
  "check_mark = [CHR 0xE2, CHR 0x9C, CHR 0x93]"

definition deployBridgeContract :: "deps \<Rightarrow> chain \<Rightarrow> unit js" where
  "deployBridgeContract d ch s =
     (let a = ctx s in
      case parseEther d (toString (fee a)) of
        Inl m \<Rightarrow> throw (LibraryError m) s
      | Inr wei \<Rightarrow>
          await (factory_deploy ch Bridge
                   [chainId a, JArr (relayers a), relayerThreshold a, JBig wei, expiry a]
                   (gasPrice a) (gasLimit a))
            (\<lambda>address.
          await (contract_deployed ch Bridge address) (\<lambda>_.
          await (assign (\<lambda>a. a\<lparr>bridgeAddress := address\<rparr>)) (\<lambda>_.
          console_log (Line (check_mark @ '' Bridge contract deployed''))))) s)"

definition deployERC20 :: "chain \<Rightarrow> unit js" where
  "deployERC20 ch s =
     (let a = ctx s in
      await (factory_deploy ch Erc20Mintable
               [JStr (erc20Name a), JStr (erc20Symbol a), erc20Decimals a]
               (gasPrice a) (gasLimit a))
        (\<lambda>address.
      await (contract_deployed ch Erc20Mintable address) (\<lambda>_.
      await (assign (\<lambda>a. a\<lparr>erc20Contract := Some address\<rparr>)) (\<lambda>_.
      console_log (Line (check_mark @ '' ERC20 contract deployed''))))) s)"

definition deployERC20Handler :: "deps \<Rightarrow> chain \<Rightarrow> unit js" where
  "deployERC20Handler d ch s =
     (let a = ctx s in
      if \<not> isValidAddress d (bridgeAddress a) then
        console_log
          (Line ''ERC20Handler contract failed to deploy due to invalid bridge address'') s
      else
        await (factory_deploy ch Erc20Handler
                 [JStr (bridgeAddress a), JArr [], JArr [], JArr []]
                 (gasPrice a) (gasLimit a))
          (\<lambda>address.
        await (contract_deployed ch Erc20Handler address) (\<lambda>_.
        await (assign (\<lambda>a. a\<lparr>erc20HandlerContract := Some address\<rparr>)) (\<lambda>_.
        console_log (Line (check_mark @ '' ERC20Handler contract deployed''))))) s)"

definition deployGenericHandler :: "deps \<Rightarrow> chain \<Rightarrow> unit js" where
  "deployGenericHandler d ch s =
     (let a = ctx s in
      if \<not> isValidAddress d (bridgeAddress a) then
        console_log
          (Line ''GenericHandler contract failed to deploy due to invalid bridge address'') s
      else
        await (factory_deploy ch GenericHandler
                 [JStr (bridgeAddress a), JArr [], JArr [], JArr [], JArr []]
                 (gasPrice a) (gasLimit a))
          (\<lambda>address.
        await (contract_deployed ch GenericHandler address) (\<lambda>_.
        await (assign (\<lambda>a. a\<lparr>genericHandlerContract := Some address\<rparr>)) (\<lambda>_.
        console_log (Line (check_mark @ '' GenericHandler contract deployed''))))) s)"

definition deployAssetStore :: "chain \<Rightarrow> unit js" where
  "deployAssetStore ch s =
     (let a = ctx s in
      await (factory_deploy ch ChainAsset [] (gasPrice a) (gasLimit a)) (\<lambda>address.
      await (contract_deployed ch ChainAsset address) (\<lambda>_.
      await (assign (\<lambda>a. a\<lparr>ChainAssetContract := Some address\<rparr>)) (\<lambda>_.
      console_log (Line (check_mark @ '' ChainAsset contract deployed''))))) s)"

section \<open>The report\<close>

definition rule_eq :: string where
  "rule_eq = replicate 64 CHR ''=''"

definition rule_dash :: string where
  "rule_dash = replicate 64 CHR ''-''"

definition orNotDeployed :: "string option \<Rightarrow> string" where
  "orNotDeployed x = (if truthy x then the x else ''Not Deployed'')"

text \<open>
  The lines of the template literal of \<^verbatim>\<open>displayLog\<close>, in order, for a context
  whose \<^verbatim>\<open>cost\<close> is \<open>c\<close>.
\<close>

definition report_lines :: "deps \<Rightarrow> args \<Rightarrow> int \<Rightarrow> string list" where
  "report_lines d a c =
     [ '''',
       rule_eq,
       ''Url:        '' @ url a,
       ''Deployer:   '' @ wallet_address a,
       ''Gas Limit:   '' @ toString (JBig (gasLimit a)),
       ''Gas Price:   '' @ toString (JBig (gasPrice a)),
       ''Deploy Cost: '' @ formatEther d c,
       '''',
       ''Options'',
       ''======='',
       ''Chain Id:    '' @ toString (chainId a),
       ''Threshold:   '' @ toString (relayerThreshold a),
       ''Relayers:    '' @ toString (JArr (relayers a)),
       ''Bridge Fee:  '' @ toString (fee a),
       ''Expiry:      '' @ toString (expiry a),
       '''',
       ''Contract Addresses'',
       rule_eq,
       ''Bridge:             '' @ orNotDeployed (Some (bridgeAddress a)),
       rule_dash,
       ''Erc20 Handler:      '' @ orNotDeployed (erc20HandlerContract a),
       rule_dash,
       ''Generic Handler:    '' @ orNotDeployed (genericHandlerContract a),
       rule_dash,
       ''Erc20:              '' @ orNotDeployed (erc20Contract a),
       rule_dash,
       ''Chain Asset:   '' @ orNotDeployed (ChainAssetContract a),
       rule_eq,
       ''        '' ]"

text \<open>Formatting an unassigned \<^verbatim>\<open>cost\<close> throws in the library.\<close>

definition displayLog :: "deps \<Rightarrow> unit js" where
  "displayLog d s =
     (case cost (ctx s) of
        None \<Rightarrow> throw (LibraryError ''invalid BigNumber value'') s
      | Some c \<Rightarrow> console_log (Summary (report_lines d (ctx s) c)) s)"

definition optStr :: "string option \<Rightarrow> jsval" where
  "optStr x = (case x of None \<Rightarrow> JUndefined | Some s \<Rightarrow> JStr s)"

text \<open>
  \<^verbatim>\<open>JSON.stringify\<close> of an object leaves out the properties whose value is
  \<^verbatim>\<open>undefined\<close>; the document is kept as its list of properties, in insertion order.
\<close>

definition JSON_stringify :: "(string \<times> jsval) list \<Rightarrow> (string \<times> jsval) list" where
  "JSON_stringify obj = filter (\<lambda>(k, v). v \<noteq> JUndefined) obj"

definition createConfig :: "unit js" where
  "createConfig s =
     (let a = ctx s in
      case toNumber (gasLimit a) of
        Inl m \<Rightarrow> throw (LibraryError m) s
      | Inr gl \<Rightarrow>
     (case toNumber (gasPrice a) of
        Inl m \<Rightarrow> throw (LibraryError m) s
      | Inr gp \<Rightarrow>
          (let data = JSON_stringify
             [ (''name'', JStr ''eth''),
               (''chainId'', chainId a),
               (''endpoint'', JStr (url a)),
               (''bridge'', JStr (bridgeAddress a)),
               (''erc20Handler'', optStr (erc20HandlerContract a)),
               (''genericHandler'', optStr (genericHandlerContract a)),
               (''gasLimit'', JNum gl),
               (''maxGasPrice'', JNum gp),
               (''startBlock'', JStr ''0''),
               (''http'', JStr ''false''),
               (''relayers'', JArr (relayers a)) ]
           in await (console_log (Line
                ''EVM Configuration, please copy this into your ChainBridge config file:''))
                (\<lambda>_. console_log (Json data)) s)))"

section \<open>The command\<close>

text \<open>
  One \<^verbatim>\<open>if (args.x) { await deployX(args); deployed = true; }\<close> of the explicit
  selection: the flag is read from the context, the result is the new value of the local
  variable \<^verbatim>\<open>deployed\<close>.
\<close>

definition ifRequested :: "(args \<Rightarrow> bool) \<Rightarrow> unit js \<Rightarrow> bool \<Rightarrow> bool js" where
  "ifRequested flag body deployed_var s =
     (if flag (ctx s) then await body (\<lambda>_. return True) s else return deployed_var s)"

definition deploySelected :: "deps \<Rightarrow> chain \<Rightarrow> unit js" where
  "deploySelected d ch =
     await (ifRequested bridge (deployBridgeContract d ch) False) (\<lambda>v1.
     await (ifRequested erc20Handler (deployERC20Handler d ch) v1) (\<lambda>v2.
     await (ifRequested genericHandler (deployGenericHandler d ch) v2) (\<lambda>v3.
     await (ifRequested erc20 (deployERC20 ch) v3) (\<lambda>v4.
     await (ifRequested asset (deployAssetStore ch) v4) (\<lambda>v5.
     if \<not> v5 then throw NoTargetSpecified else return ())))))"

definition deployAll :: "deps \<Rightarrow> chain \<Rightarrow> unit js" where
  "deployAll d ch =
     await (deployBridgeContract d ch) (\<lambda>_.
     await (deployERC20Handler d ch) (\<lambda>_.
     await (deployGenericHandler d ch) (\<lambda>_.
     deployERC20 ch)))"

text \<open>
  The action of the \<^verbatim>\<open>deploy\<close> command, from the balance query that follows
  \<^verbatim>\<open>setupParentArgs\<close> to the optional configuration document.
\<close>

definition deployCmd_action :: "deps \<Rightarrow> chain \<Rightarrow> unit js" where
  "deployCmd_action d ch =
     await (\<lambda>s. provider_getBalance ch (wallet_address (ctx s)) s) (\<lambda>startBal.
     await (console_log (Line ''Deploying contracts...'')) (\<lambda>_.
     await (\<lambda>s. if all_flag (ctx s) then deployAll d ch s else deploySelected d ch s) (\<lambda>_.
     await (\<lambda>s. provider_getBalance ch (wallet_address (ctx s)) s) (\<lambda>endBal.
     await (assign (\<lambda>a. a\<lparr>cost := Some (startBal - endBal)\<rparr>)) (\<lambda>_.
     await (displayLog d) (\<lambda>_.
     (\<lambda>s. if config (ctx s) then createConfig s else return () s)))))))"

section \<open>The constructor table of the specification\<close>

text \<open>
  The table of the specification: the constructor arguments of each contract kind, as a
  function of the context. The fee of the bridge is the option value converted by
  \<^verbatim>\<open>parseEther\<close>; there is no argument list when that conversion throws.
\<close>

definition spec_constructorArgs :: "deps \<Rightarrow> args \<Rightarrow> contractKind \<Rightarrow> jsval list option" where
  "spec_constructorArgs d a k = (case k of
      Bridge \<Rightarrow> (case parseEther d (toString (fee a)) of
          Inl m \<Rightarrow> None
        | Inr wei \<Rightarrow> Some [chainId a, JArr (relayers a), relayerThreshold a, JBig wei, expiry a])
    | Erc20Handler \<Rightarrow> Some [JStr (bridgeAddress a), JArr [], JArr [], JArr []]
    | GenericHandler \<Rightarrow> Some [JStr (bridgeAddress a), JArr [], JArr [], JArr [], JArr []]
    | Erc20Mintable \<Rightarrow> Some [JStr (erc20Name a), JStr (erc20Symbol a), erc20Decimals a]
    | ChainAsset \<Rightarrow> Some [])"

section \<open>Notions used in the proofs\<close>

text \<open>
  The position of a contract kind in the canonical order, the context field that keeps its
  address, and what one deploy function can do to a state (\<open>Step\<close>): skip a handler for
  want of a valid bridge address, throw on its arguments, have the creation or the
  confirmation rejected, or record the confirmed address.
\<close>

definition stage :: "contractKind \<Rightarrow> nat" where
  "stage k = (case k of Bridge \<Rightarrow> 0 | Erc20Handler \<Rightarrow> 1 | GenericHandler \<Rightarrow> 2
     | Erc20Mintable \<Rightarrow> 3 | ChainAsset \<Rightarrow> 4)"

definition recorded :: "contractKind \<Rightarrow> args \<Rightarrow> string option" where
  "recorded k a = (case k of Bridge \<Rightarrow> Some (bridgeAddress a)
     | Erc20Handler \<Rightarrow> erc20HandlerContract a
     | GenericHandler \<Rightarrow> genericHandlerContract a
     | Erc20Mintable \<Rightarrow> erc20Contract a
     | ChainAsset \<Rightarrow> ChainAssetContract a)"

definition record_address :: "contractKind \<Rightarrow> string \<Rightarrow> args \<Rightarrow> args" where
  "record_address k addr a = (case k of Bridge \<Rightarrow> a\<lparr>bridgeAddress := addr\<rparr>
     | Erc20Handler \<Rightarrow> a\<lparr>erc20HandlerContract := Some addr\<rparr>
     | GenericHandler \<Rightarrow> a\<lparr>genericHandlerContract := Some addr\<rparr>
     | Erc20Mintable \<Rightarrow> a\<lparr>erc20Contract := Some addr\<rparr>
     | ChainAsset \<Rightarrow> a\<lparr>ChainAssetContract := Some addr\<rparr>)"

definition needsBridge :: "contractKind \<Rightarrow> bool" where
  "needsBridge k = (k = Erc20Handler \<or> k = GenericHandler)"

definition rejected :: "reply \<Rightarrow> bool" where
  "rejected r = (case r of Failed m \<Rightarrow> True | _ \<Rightarrow> False)"

definition err :: "error + 'a \<Rightarrow> error option" where
  "err r = (case r of Inl e \<Rightarrow> Some e | Inr x \<Rightarrow> None)"

definition blank :: "args \<Rightarrow> args" where
  "blank a = a\<lparr>bridgeAddress := [], erc20HandlerContract := None,
     genericHandlerContract := None, erc20Contract := None, ChainAssetContract := None\<rparr>"

inductive Step :: "deps \<Rightarrow> contractKind \<Rightarrow> state \<Rightarrow> error + unit \<Rightarrow> state \<Rightarrow> bool"
  for d :: deps and k :: contractKind and s :: state where
  skipped:
    "needsBridge k \<Longrightarrow> \<not> isValidAddress d (bridgeAddress (ctx s)) \<Longrightarrow>
     Step d k s (Inr ()) (s\<lparr>console := console s @ [Line m]\<rparr>)"
| bad_arguments:
    "spec_constructorArgs d (ctx s) k = None \<Longrightarrow> Step d k s (Inl (LibraryError m)) s"
| creation_rejected:
    "needsBridge k \<longrightarrow> isValidAddress d (bridgeAddress (ctx s)) \<Longrightarrow>
     spec_constructorArgs d (ctx s) k = Some as \<Longrightarrow>
     Step d k s (Inl (RpcError m))
       (s\<lparr>net := net s @ [(Deploy k as (gasPrice (ctx s)) (gasLimit (ctx s)), Failed m)]\<rparr>)"
| confirmation_rejected:
    "needsBridge k \<longrightarrow> isValidAddress d (bridgeAddress (ctx s)) \<Longrightarrow>
     spec_constructorArgs d (ctx s) k = Some as \<Longrightarrow>
     Step d k s (Inl (RpcError m))
       (s\<lparr>net := net s @ [(Deploy k as (gasPrice (ctx s)) (gasLimit (ctx s)), Created addr),
                            (Deployed k addr, Failed m)]\<rparr>)"
| confirmed:
    "needsBridge k \<longrightarrow> isValidAddress d (bridgeAddress (ctx s)) \<Longrightarrow>
     spec_constructorArgs d (ctx s) k = Some as \<Longrightarrow>
     Step d k s (Inr ())
       (s\<lparr>net := net s @ [(Deploy k as (gasPrice (ctx s)) (gasLimit (ctx s)), Created addr),
                            (Deployed k addr, Mined)],
          ctx := record_address k addr (ctx s),
          console := console s @ [Line m]\<rparr>)"

text \<open>
  The invariant of the deployment sequence, relative to the state \<open>s0\<close> in which the
  sequence starts: only calls of kinds before position \<open>n\<close> have been made, each with the
  arguments of the table, only the last call may have been rejected (and then the pending
  error \<open>e\<close> is that rejection), only lines have been printed, and only address fields of
  kinds before position \<open>n\<close> have changed.
\<close>

definition trace_ok :: "error option \<Rightarrow> trace \<Rightarrow> bool" where
  "trace_ok e t = ((\<forall>x\<in>set (butlast t). \<not> rejected (snd x)) \<and>
     (t \<noteq> [] \<longrightarrow> (case snd (last t) of Failed m \<Rightarrow> e = Some (RpcError m) | _ \<Rightarrow> True)))"

definition entry_ok :: "deps \<Rightarrow> args \<Rightarrow> nat \<Rightarrow> call \<times> reply \<Rightarrow> bool" where
  "entry_ok d a n x = (case fst x of
      GetBalance w \<Rightarrow> False
    | Deploy k as gp gl \<Rightarrow> stage k < n \<and> spec_constructorArgs d a k = Some as \<and>
        gp = gasPrice a \<and> gl = gasLimit a \<and>
        (needsBridge k \<longrightarrow> isValidAddress d (bridgeAddress a)) \<and>
        (case snd x of Failed m \<Rightarrow> True | Created addr \<Rightarrow> True | _ \<Rightarrow> False)
    | Deployed k addr \<Rightarrow> stage k < n \<and>
        (case snd x of Failed m \<Rightarrow> True | Mined \<Rightarrow> recorded k a = Some addr | _ \<Rightarrow> False))"

definition phaseInv :: "deps \<Rightarrow> state \<Rightarrow> nat \<Rightarrow> error option \<Rightarrow> state \<Rightarrow> bool" where
  "phaseInv d s0 n e s =
     ((\<exists>t. net s = net s0 @ t \<and> (\<forall>x\<in>set t. entry_ok d (ctx s) n x) \<and> trace_ok e t) \<and>
      (\<exists>ms. console s = console s0 @ map Line ms) \<and>
      blank (ctx s) = blank (ctx s0) \<and> cost (ctx s) = cost (ctx s0) \<and>
      (\<forall>k. n \<le> stage k \<longrightarrow> k \<noteq> Bridge \<longrightarrow> recorded k (ctx s) = None) \<and>
      ((erc20HandlerContract (ctx s) \<noteq> None \<or> genericHandlerContract (ctx s) \<noteq> None)
         \<longrightarrow> isValidAddress d (bridgeAddress (ctx s))))"

text \<open>The state in which the command starts: nothing called, printed or recorded yet.\<close>

definition fresh :: "state \<Rightarrow> bool" where
  "fresh s = (net s = [] \<and> console s = [] \<and> erc20HandlerContract (ctx s) = None \<and>
     genericHandlerContract (ctx s) = None \<and> erc20Contract (ctx s) = None \<and>
     ChainAssetContract (ctx s) = None \<and> cost (ctx s) = None)"

text \<open>
  Two states of a run: after the first balance query, answered with \<open>b0\<close>, and the first
  line; and after the second balance query, answered with \<open>b1\<close>, the assignment of the
  cost and the report.
\<close>

definition started :: "state \<Rightarrow> int \<Rightarrow> state" where
  "started s b0 = s\<lparr>net := net s @ [(GetBalance (wallet_address (ctx s)), Balance b0)],
     console := console s @ [Line ''Deploying contracts...'']\<rparr>"

definition reported :: "deps \<Rightarrow> state \<Rightarrow> int \<Rightarrow> int \<Rightarrow> state" where
  "reported d s b0 b1 =
     s\<lparr>net := net s @ [(GetBalance (wallet_address (ctx s)), Balance b1)],
       ctx := (ctx s)\<lparr>cost := Some (b0 - b1)\<rparr>,
       console := console s @
         [Summary (report_lines d ((ctx s)\<lparr>cost := Some (b0 - b1)\<rparr>) (b0 - b1))]\<rparr>"

definition isQuery :: "call \<times> reply \<Rightarrow> bool" where
  "isQuery x = (case fst x of GetBalance w \<Rightarrow> True | _ \<Rightarrow> False)"

definition accepted :: "state \<Rightarrow> bool" where
  "accepted s = (\<forall>x\<in>set (net s). \<not> rejected (snd x))"

definition grows :: "'a js \<Rightarrow> bool" where
  "grows m = (\<forall>s r s'. m s = (r, s') \<longrightarrow> (\<exists>new. net s' = net s @ new))"

section \<open>A sample environment\<close>

definition sample_deps :: deps where
  "sample_deps = \<lparr> isValidAddress = (\<lambda>s. length s = 42 \<and> take 2 s = ''0x''),
      parseEther = (\<lambda>s. if s = ''0'' then Inr 0 else Inl ''invalid decimal value''),
      formatEther = (\<lambda>n. show_int n @ '' wei'') \<rparr>"

definition sample_address :: "contractKind \<Rightarrow> string" where
  "sample_address k = (case k of
      Bridge \<Rightarrow> ''0x1111111111111111111111111111111111111111''
    | Erc20Handler \<Rightarrow> ''0x2222222222222222222222222222222222222222''
    | GenericHandler \<Rightarrow> ''0x3333333333333333333333333333333333333333''
    | Erc20Mintable \<Rightarrow> ''0x4444444444444444444444444444444444444444''
    | ChainAsset \<Rightarrow> ''0x5555555555555555555555555555555555555555'')"

text \<open>A chain that accepts every call; the balance drops by one with each call made.\<close>

definition sample_chain :: chain where
  "sample_chain = \<lparr> getBalance = (\<lambda>t w. Inr (1000 - int (length t))),
      deploy = (\<lambda>t k as gp gl. Inr (sample_address k)),
      deployed = (\<lambda>t k addr. Inr ()) \<rparr>"

text \<open>The context of an invocation with the default option values and no flag given.\<close>

definition sample_args :: args where
  "sample_args = \<lparr> url = ''http://localhost:8545'', wallet_address = ''0xff'',
      gasLimit = 8000000, gasPrice = 20000000,
      chainId = JNum 1, relayers = [''0xA'', ''0xB''], relayerThreshold = JNum 2,
      fee = JNum 0, expiry = JNum 100,
      all_flag = False, bridge = False, erc20Handler = False, genericHandler = False,
      bridgeAddress = '''', erc20 = False, erc20Symbol = '''', erc20Name = '''',
      erc20Decimals = JNum 18, asset = False, config = False,
      erc20HandlerContract = None, genericHandlerContract = None, erc20Contract = None,
      ChainAssetContract = None, cost = None \<rparr>"

definition start :: "args \<Rightarrow> state" where
  "start a = \<lparr> ctx = a, net = [], console = [] \<rparr>"

text \<open>A chain on which the confirmation of the ERC20 handler times out.\<close>

definition timeout_chain :: chain where
  "timeout_chain = \<lparr> getBalance = (\<lambda>t w. Inr (1000 - int (length t))),
      deploy = (\<lambda>t k as gp gl. Inr (sample_address k)),
      deployed = (\<lambda>t k addr. if k = Erc20Handler then Inl ''timeout'' else Inr ()) \<rparr>"

text \<open>A chain that answers the first balance query and rejects every later one.\<close>

definition offline_chain :: chain where
  "offline_chain = \<lparr> getBalance = (\<lambda>t w. if t = [] then Inr 1000 else Inl ''connection lost''),
      deploy = (\<lambda>t k as gp gl. Inr (sample_address k)),
      deployed = (\<lambda>t k addr. Inr ()) \<rparr>"

section \<open>Lemmas\<close>

lemmas prims = await_def return_def throw_def console_log_def assign_def
  provider_getBalance_def factory_deploy_def contract_deployed_def

lemma trace_ok_Nil [simp]: "trace_ok e []"
  by (simp add: trace_ok_def)

lemma trace_ok_None: "trace_ok None t = (\<forall>x\<in>set t. \<not> rejected (snd x))"
proof (cases t rule: rev_cases)
  case Nil
  then show ?thesis by simp
next
  case (snoc ys y)
  then show ?thesis
    by (cases "snd y") (auto simp: trace_ok_def rejected_def)
qed

lemma trace_ok_snoc:
  "trace_ok e (t @ [x]) =
     ((\<forall>y\<in>set t. \<not> rejected (snd y)) \<and>
      (case snd x of Failed m \<Rightarrow> e = Some (RpcError m) | _ \<Rightarrow> True))"
  by (simp add: trace_ok_def)

lemma trace_ok_snoc2:
  "trace_ok e (t @ [x, y]) =
     ((\<forall>z\<in>set t. \<not> rejected (snd z)) \<and> \<not> rejected (snd x) \<and>
      (case snd y of Failed m \<Rightarrow> e = Some (RpcError m) | _ \<Rightarrow> True))"
  using trace_ok_snoc [of e "t @ [x]" y] by auto

lemma blank_fields:
  assumes "blank a' = blank a"
  shows "url a' = url a" "wallet_address a' = wallet_address a" "gasLimit a' = gasLimit a"
    "gasPrice a' = gasPrice a" "chainId a' = chainId a" "relayers a' = relayers a"
    "relayerThreshold a' = relayerThreshold a" "fee a' = fee a" "expiry a' = expiry a"
    "all_flag a' = all_flag a" "bridge a' = bridge a" "erc20Handler a' = erc20Handler a"
    "genericHandler a' = genericHandler a" "erc20 a' = erc20 a" "erc20Symbol a' = erc20Symbol a"
    "erc20Name a' = erc20Name a" "erc20Decimals a' = erc20Decimals a" "asset a' = asset a"
    "config a' = config a"
proof -
  have h: "f (blank a') = f (blank a)" for f :: "args \<Rightarrow> 'b"
    using assms by simp
  show "url a' = url a" using h [of url] by (simp add: blank_def)
  show "wallet_address a' = wallet_address a" using h [of wallet_address] by (simp add: blank_def)
  show "gasLimit a' = gasLimit a" using h [of gasLimit] by (simp add: blank_def)
  show "gasPrice a' = gasPrice a" using h [of gasPrice] by (simp add: blank_def)
  show "chainId a' = chainId a" using h [of chainId] by (simp add: blank_def)
  show "relayers a' = relayers a" using h [of relayers] by (simp add: blank_def)
  show "relayerThreshold a' = relayerThreshold a" using h [of relayerThreshold] by (simp add: blank_def)
  show "fee a' = fee a" using h [of fee] by (simp add: blank_def)
  show "expiry a' = expiry a" using h [of expiry] by (simp add: blank_def)
  show "all_flag a' = all_flag a" using h [of all_flag] by (simp add: blank_def)
  show "bridge a' = bridge a" using h [of bridge] by (simp add: blank_def)
  show "erc20Handler a' = erc20Handler a" using h [of erc20Handler] by (simp add: blank_def)
  show "genericHandler a' = genericHandler a" using h [of genericHandler] by (simp add: blank_def)
  show "erc20 a' = erc20 a" using h [of erc20] by (simp add: blank_def)
  show "erc20Symbol a' = erc20Symbol a" using h [of erc20Symbol] by (simp add: blank_def)
  show "erc20Name a' = erc20Name a" using h [of erc20Name] by (simp add: blank_def)
  show "erc20Decimals a' = erc20Decimals a" using h [of erc20Decimals] by (simp add: blank_def)
  show "asset a' = asset a" using h [of asset] by (simp add: blank_def)
  show "config a' = config a" using h [of config] by (simp add: blank_def)
qed

lemma blank_record_address [simp]: "blank (record_address k addr a) = blank a"
  by (cases k) (simp_all add: blank_def record_address_def)

lemma cost_record_address [simp]: "cost (record_address k addr a) = cost a"
  by (cases k) (simp_all add: record_address_def)

lemma gas_record_address [simp]:
  "gasPrice (record_address k addr a) = gasPrice a"
  "gasLimit (record_address k addr a) = gasLimit a"
  by (cases k; simp add: record_address_def)+

lemma recorded_record_address_same [simp]:
  "recorded k (record_address k addr a) = Some addr"
  by (cases k) (simp_all add: recorded_def record_address_def)

lemma recorded_record_address_other:
  "k' \<noteq> k \<Longrightarrow> recorded k' (record_address k addr a) = recorded k' a"
  by (cases k; cases k') (simp_all add: recorded_def record_address_def)

lemma bridgeAddress_record_address:
  "k \<noteq> Bridge \<Longrightarrow> bridgeAddress (record_address k addr a) = bridgeAddress a"
  by (cases k) (simp_all add: record_address_def)

lemma spec_constructorArgs_record_address:
  "k \<noteq> Bridge \<or> k' = Bridge \<or> \<not> needsBridge k' \<Longrightarrow>
   spec_constructorArgs d (record_address k addr a) k' = spec_constructorArgs d a k'"
  by (cases k; cases k') (simp_all add: spec_constructorArgs_def record_address_def needsBridge_def split: sum.splits)

lemma entry_ok_mono: "entry_ok d a n x \<Longrightarrow> n \<le> m \<Longrightarrow> entry_ok d a m x"
  by (auto simp: entry_ok_def split: call.splits)

lemma entry_ok_record_address:
  assumes "entry_ok d a n x" and "n \<le> stage k"
  shows "entry_ok d (record_address k addr a) (Suc (stage k)) x"
proof (cases "k = Bridge")
  case True
  with assms show ?thesis
    by (auto simp: entry_ok_def stage_def split: call.splits)
next
  case False
  have other: "stage k' < n \<Longrightarrow> k' \<noteq> k" for k'
    using assms(2) by auto
  show ?thesis
  proof (cases "fst x")
    case (GetBalance w)
    with assms show ?thesis by (simp add: entry_ok_def)
  next
    case (Deploy k' as gp gl)
    with assms False show ?thesis
      by (auto simp: entry_ok_def spec_constructorArgs_record_address
          bridgeAddress_record_address)
  next
    case (Deployed k' a')
    with assms False other [of k'] show ?thesis
      by (auto simp: entry_ok_def recorded_record_address_other split: reply.splits)
  qed
qed

lemma phaseInv_mono: "phaseInv d s0 n e s \<Longrightarrow> n \<le> m \<Longrightarrow> phaseInv d s0 m e s"
  unfolding phaseInv_def
  by (meson entry_ok_mono le_trans)

lemma deployBridgeContract_Step:
  "deployBridgeContract d ch s = (r, s') \<Longrightarrow> Step d Bridge s r s'"
  unfolding deployBridgeContract_def prims Let_def
  apply (clarsimp split: sum.splits if_splits)
  apply ((rule skipped bad_arguments creation_rejected confirmation_rejected
        Step.confirmed [where k = Bridge, unfolded record_address_def, simplified];
      simp add: spec_constructorArgs_def needsBridge_def)+)
  done

lemma deployERC20Handler_Step:
  "deployERC20Handler d ch s = (r, s') \<Longrightarrow> Step d Erc20Handler s r s'"
  unfolding deployERC20Handler_def prims Let_def
  apply (clarsimp split: sum.splits if_splits)
  apply ((rule skipped bad_arguments creation_rejected confirmation_rejected
        Step.confirmed [where k = Erc20Handler, unfolded record_address_def, simplified];
      simp add: spec_constructorArgs_def needsBridge_def)+)
  done

lemma deployGenericHandler_Step:
  "deployGenericHandler d ch s = (r, s') \<Longrightarrow> Step d GenericHandler s r s'"
  unfolding deployGenericHandler_def prims Let_def
  apply (clarsimp split: sum.splits if_splits)
  apply ((rule skipped bad_arguments creation_rejected confirmation_rejected
        Step.confirmed [where k = GenericHandler, unfolded record_address_def, simplified];
      simp add: spec_constructorArgs_def needsBridge_def)+)
  done

lemma deployERC20_Step:
  "deployERC20 ch s = (r, s') \<Longrightarrow> Step d Erc20Mintable s r s'"
  unfolding deployERC20_def prims Let_def
  apply (clarsimp split: sum.splits if_splits)
  apply ((rule skipped bad_arguments creation_rejected confirmation_rejected
        Step.confirmed [where k = Erc20Mintable, unfolded record_address_def, simplified];
      simp add: spec_constructorArgs_def needsBridge_def)+)
  done

lemma deployAssetStore_Step:
  "deployAssetStore ch s = (r, s') \<Longrightarrow> Step d ChainAsset s r s'"
  unfolding deployAssetStore_def prims Let_def
  apply (clarsimp split: sum.splits if_splits)
  apply ((rule skipped bad_arguments creation_rejected confirmation_rejected
        Step.confirmed [where k = ChainAsset, unfolded record_address_def, simplified];
      simp add: spec_constructorArgs_def needsBridge_def)+)
  done

lemma trace_ok_clean: "\<forall>x\<in>set t. \<not> rejected (snd x) \<Longrightarrow> trace_ok e t"
proof (cases t rule: rev_cases)
  case Nil
  then show ?thesis by simp
next
  case (snoc ys y)
  assume "\<forall>x\<in>set t. \<not> rejected (snd x)"
  with snoc show ?thesis
    by (cases "snd y") (auto simp: trace_ok_def rejected_def)
qed

lemma Step_phaseInv:
  assumes step: "Step d k s r s'" and inv: "phaseInv d s0 n None s" and n: "n \<le> stage k"
  shows "phaseInv d s0 (Suc (stage k)) (err r) s'"
proof -
  from inv obtain t ms where
    t: "net s = net s0 @ t" "\<forall>x\<in>set t. entry_ok d (ctx s) n x" "\<forall>x\<in>set t. \<not> rejected (snd x)"
    and ms: "console s = console s0 @ map Line ms"
    and bl: "blank (ctx s) = blank (ctx s0)" "cost (ctx s) = cost (ctx s0)"
    and unset: "\<forall>k. n \<le> stage k \<longrightarrow> k \<noteq> Bridge \<longrightarrow> recorded k (ctx s) = None"
    and valid: "erc20HandlerContract (ctx s) \<noteq> None \<or> genericHandlerContract (ctx s) \<noteq> None
         \<longrightarrow> isValidAddress d (bridgeAddress (ctx s))"
    unfolding phaseInv_def trace_ok_None by blast
  have old: "\<forall>x\<in>set t. entry_ok d (ctx s) (Suc (stage k)) x"
    using t(2) n by (auto intro: entry_ok_mono)
  have unset': "\<forall>k'. Suc (stage k) \<le> stage k' \<longrightarrow> k' \<noteq> Bridge \<longrightarrow> recorded k' (ctx s) = None"
    using unset n by auto
  from step show ?thesis
  proof cases
    case (skipped m)
    have "console s' = console s0 @ map Line (ms @ [m])"
      using skipped ms by simp
    then have "\<exists>ms. console s' = console s0 @ map Line ms" ..
    moreover have "\<exists>t. net s' = net s0 @ t \<and> (\<forall>x\<in>set t. entry_ok d (ctx s') (Suc (stage k)) x) \<and>
        trace_ok (err r) t"
      using skipped t old by (auto intro: trace_ok_clean)
    ultimately show ?thesis
      using skipped bl unset' valid unfolding phaseInv_def by simp
  next
    case (bad_arguments m)
    have "\<exists>t. net s' = net s0 @ t \<and> (\<forall>x\<in>set t. entry_ok d (ctx s') (Suc (stage k)) x) \<and>
        trace_ok (err r) t"
      using bad_arguments t old by (auto intro: trace_ok_clean)
    then show ?thesis
      using bad_arguments bl unset' valid ms unfolding phaseInv_def by auto
  next
    case (creation_rejected as m)
    let ?x = "(Deploy k as (gasPrice (ctx s)) (gasLimit (ctx s)), Failed m)"
    have "entry_ok d (ctx s) (Suc (stage k)) ?x"
      using creation_rejected by (simp add: entry_ok_def)
    then have "net s' = net s0 @ (t @ [?x]) \<and>
        (\<forall>x\<in>set (t @ [?x]). entry_ok d (ctx s') (Suc (stage k)) x) \<and>
        trace_ok (err r) (t @ [?x])"
      using creation_rejected t old by (simp add: err_def trace_ok_snoc)
    then have "\<exists>t. net s' = net s0 @ t \<and> (\<forall>x\<in>set t. entry_ok d (ctx s') (Suc (stage k)) x) \<and>
        trace_ok (err r) t" by blast
    moreover have "\<exists>ms. console s' = console s0 @ map Line ms"
      using creation_rejected ms by auto
    ultimately show ?thesis
      using creation_rejected bl unset' valid unfolding phaseInv_def by simp
  next
    case (confirmation_rejected as m addr)
    let ?x = "(Deploy k as (gasPrice (ctx s)) (gasLimit (ctx s)), Created addr)"
    let ?y = "(Deployed k addr, Failed m)"
    have "entry_ok d (ctx s) (Suc (stage k)) ?x" "entry_ok d (ctx s) (Suc (stage k)) ?y"
      using confirmation_rejected by (simp_all add: entry_ok_def)
    then have "net s' = net s0 @ (t @ [?x, ?y]) \<and>
        (\<forall>x\<in>set (t @ [?x, ?y]). entry_ok d (ctx s') (Suc (stage k)) x) \<and>
        trace_ok (err r) (t @ [?x, ?y])"
      using confirmation_rejected t old by (simp add: err_def trace_ok_snoc2 rejected_def)
    then have "\<exists>t. net s' = net s0 @ t \<and> (\<forall>x\<in>set t. entry_ok d (ctx s') (Suc (stage k)) x) \<and>
        trace_ok (err r) t" by blast
    moreover have "\<exists>ms. console s' = console s0 @ map Line ms"
      using confirmation_rejected ms by auto
    ultimately show ?thesis
      using confirmation_rejected bl unset' valid unfolding phaseInv_def by simp
  next
    case (confirmed as m addr)
    let ?a = "record_address k addr (ctx s)"
    let ?x = "(Deploy k as (gasPrice (ctx s)) (gasLimit (ctx s)), Created addr)"
    let ?y = "(Deployed k addr, Mined)"
    have ctx': "ctx s' = ?a" using confirmed by simp
    have old': "\<forall>x\<in>set t. entry_ok d ?a (Suc (stage k)) x"
      using t(2) n by (auto intro: entry_ok_record_address)
    have args: "spec_constructorArgs d ?a k = Some as"
      using confirmed(4) by (simp add: spec_constructorArgs_record_address)
    have bridge_valid: "needsBridge k \<longrightarrow> isValidAddress d (bridgeAddress ?a)"
      using confirmed(3) by (cases k) (simp_all add: needsBridge_def record_address_def)
    have new: "entry_ok d ?a (Suc (stage k)) ?x" "entry_ok d ?a (Suc (stage k)) ?y"
      using args bridge_valid by (simp_all add: entry_ok_def)
    have "net s' = net s0 @ (t @ [?x, ?y]) \<and>
        (\<forall>x\<in>set (t @ [?x, ?y]). entry_ok d (ctx s') (Suc (stage k)) x) \<and>
        trace_ok (err r) (t @ [?x, ?y])"
      using confirmed t old' new by (simp add: err_def trace_ok_snoc2 rejected_def)
    then have 1: "\<exists>t. net s' = net s0 @ t \<and> (\<forall>x\<in>set t. entry_ok d (ctx s') (Suc (stage k)) x) \<and>
        trace_ok (err r) t" by blast
    have "console s' = console s0 @ map Line (ms @ [m])"
      using confirmed ms by simp
    then have 2: "\<exists>ms. console s' = console s0 @ map Line ms" ..
    have 3: "\<forall>k'. Suc (stage k) \<le> stage k' \<longrightarrow> k' \<noteq> Bridge \<longrightarrow> recorded k' (ctx s') = None"
    proof (intro allI impI)
      fix k' assume k': "Suc (stage k) \<le> stage k'" "k' \<noteq> Bridge"
      then have "k' \<noteq> k" by auto
      then show "recorded k' (ctx s') = None"
        using unset' k' by (simp add: ctx' recorded_record_address_other)
    qed
    have 4: "erc20HandlerContract (ctx s') \<noteq> None \<or> genericHandlerContract (ctx s') \<noteq> None
         \<longrightarrow> isValidAddress d (bridgeAddress (ctx s'))"
    proof (cases "k = Bridge")
      case True
      then have "n = 0" using n by (simp add: stage_def)
      then have "recorded Erc20Handler (ctx s) = None" "recorded GenericHandler (ctx s) = None"
        using unset by (simp_all add: stage_def)
      then show ?thesis
        using True by (simp add: ctx' recorded_def record_address_def)
    next
      case False
      show ?thesis
      proof (cases "needsBridge k")
        case True
        then show ?thesis using bridge_valid by (simp add: ctx')
      next
        case False
        with \<open>k \<noteq> Bridge\<close> valid show ?thesis
          by (cases k) (simp_all add: ctx' needsBridge_def record_address_def)
      qed
    qed
    show ?thesis
      unfolding phaseInv_def using 1 2 3 4 bl by (simp add: ctx')
  qed
qed

lemma await_cases:
  assumes "await m k s = (r, s')"
  obtains (threw) e where "m s = (Inl e, s')" and "r = Inl e"
  | (continued) x s1 where "m s = (Inr x, s1)" and "k x s1 = (r, s')"
  using assms unfolding await_def by (auto split: prod.splits sum.splits)

lemma err_simps [simp]: "err (Inl e) = Some e" "err (Inr x) = None"
  by (simp_all add: err_def)

lemma phaseInv_pending: "phaseInv d s0 n None s \<Longrightarrow> phaseInv d s0 n e s"
  unfolding phaseInv_def by (auto simp: trace_ok_None intro: trace_ok_clean)

lemma deployBridgeContract_Steps:
  "\<forall>s r s'. deployBridgeContract d ch s = (r, s') \<longrightarrow> Step d Bridge s r s'"
  by (blast intro: deployBridgeContract_Step)

lemma deployERC20Handler_Steps:
  "\<forall>s r s'. deployERC20Handler d ch s = (r, s') \<longrightarrow> Step d Erc20Handler s r s'"
  by (blast intro: deployERC20Handler_Step)

lemma deployGenericHandler_Steps:
  "\<forall>s r s'. deployGenericHandler d ch s = (r, s') \<longrightarrow> Step d GenericHandler s r s'"
  by (blast intro: deployGenericHandler_Step)

lemma deployERC20_Steps:
  "\<forall>s r s'. deployERC20 ch s = (r, s') \<longrightarrow> Step d Erc20Mintable s r s'"
  by (blast intro: deployERC20_Step)

lemma deployAssetStore_Steps:
  "\<forall>s r s'. deployAssetStore ch s = (r, s') \<longrightarrow> Step d ChainAsset s r s'"
  by (blast intro: deployAssetStore_Step)

lemma ifRequested_inv:
  assumes run: "ifRequested flag f v s = (r, s')"
    and step: "\<forall>s r s'. f s = (r, s') \<longrightarrow> Step d k s r s'"
    and inv: "phaseInv d s0 n None s" and n: "n \<le> stage k"
  shows "phaseInv d s0 (Suc (stage k)) (err r) s'"
proof (cases "flag (ctx s)")
  case True
  with run have "await f (\<lambda>_. return True) s = (r, s')"
    by (simp add: ifRequested_def)
  then show ?thesis
  proof (cases rule: await_cases)
    case (threw e)
    with Step_phaseInv [OF step [rule_format, OF threw(1)] inv n] show ?thesis by simp
  next
    case (continued x s1)
    with Step_phaseInv [OF step [rule_format, OF continued(1)] inv n] show ?thesis
      by (auto simp: return_def)
  qed
next
  case False
  with run have "r = Inr v" "s' = s"
    by (simp_all add: ifRequested_def return_def)
  with inv n show ?thesis
    by (auto intro: phaseInv_mono)
qed

lemma deployAll_inv:
  assumes run: "deployAll d ch s = (r, s')" and inv: "phaseInv d s0 0 None s"
  shows "phaseInv d s0 5 (err r) s'"
  using run unfolding deployAll_def
proof (cases rule: await_cases)
  case (threw e)
  from Step_phaseInv [OF deployBridgeContract_Step [OF threw(1)] inv] threw(2) show ?thesis
    by (auto simp: stage_def intro: phaseInv_mono)
next
  case c1: (continued x1 s1)
  from Step_phaseInv [OF deployBridgeContract_Step [OF c1(1)] inv]
  have inv1: "phaseInv d s0 1 None s1" by (simp add: stage_def)
  from c1(2) show ?thesis
  proof (cases rule: await_cases)
    case (threw e)
    from Step_phaseInv [OF deployERC20Handler_Step [OF threw(1)] inv1] threw(2) show ?thesis
      by (auto simp: stage_def intro: phaseInv_mono)
  next
    case c2: (continued x2 s2)
    from Step_phaseInv [OF deployERC20Handler_Step [OF c2(1)] inv1]
    have inv2: "phaseInv d s0 2 None s2" by (simp add: stage_def numeral_2_eq_2)
    from c2(2) show ?thesis
    proof (cases rule: await_cases)
      case (threw e)
      from Step_phaseInv [OF deployGenericHandler_Step [OF threw(1)] inv2] threw(2) show ?thesis
        by (auto simp: stage_def intro: phaseInv_mono)
    next
      case c3: (continued x3 s3)
      from Step_phaseInv [OF deployGenericHandler_Step [OF c3(1)] inv2]
      have inv3: "phaseInv d s0 3 None s3" by (simp add: stage_def numeral_3_eq_3)
      from Step_phaseInv [OF deployERC20_Step [OF c3(2)] inv3] show ?thesis
        by (auto simp: stage_def intro: phaseInv_mono)
    qed
  qed
qed

lemma deploySelected_inv:
  assumes run: "deploySelected d ch s = (r, s')" and inv: "phaseInv d s0 0 None s"
  shows "phaseInv d s0 5 (err r) s'"
  using run unfolding deploySelected_def
proof (cases rule: await_cases)
  case (threw e)
  from ifRequested_inv [OF threw(1) deployBridgeContract_Steps inv] threw(2) show ?thesis
    by (auto simp: stage_def intro: phaseInv_mono)
next
  case c1: (continued v1 s1)
  from ifRequested_inv [OF c1(1) deployBridgeContract_Steps inv]
  have inv1: "phaseInv d s0 1 None s1" by (simp add: stage_def)
  from c1(2) show ?thesis
  proof (cases rule: await_cases)
    case (threw e)
    from ifRequested_inv [OF threw(1) deployERC20Handler_Steps inv1] threw(2) show ?thesis
      by (auto simp: stage_def intro: phaseInv_mono)
  next
    case c2: (continued v2 s2)
    from ifRequested_inv [OF c2(1) deployERC20Handler_Steps inv1]
    have inv2: "phaseInv d s0 2 None s2" by (simp add: stage_def numeral_2_eq_2)
    from c2(2) show ?thesis
    proof (cases rule: await_cases)
      case (threw e)
      from ifRequested_inv [OF threw(1) deployGenericHandler_Steps inv2] threw(2) show ?thesis
        by (auto simp: stage_def intro: phaseInv_mono)
    next
      case c3: (continued v3 s3)
      from ifRequested_inv [OF c3(1) deployGenericHandler_Steps inv2]
      have inv3: "phaseInv d s0 3 None s3" by (simp add: stage_def numeral_3_eq_3)
      from c3(2) show ?thesis
      proof (cases rule: await_cases)
        case (threw e)
        from ifRequested_inv [OF threw(1) deployERC20_Steps inv3] threw(2) show ?thesis
          by (auto simp: stage_def intro: phaseInv_mono)
      next
        case c4: (continued v4 s4)
        from ifRequested_inv [OF c4(1) deployERC20_Steps inv3]
        have inv4: "phaseInv d s0 4 None s4" by (simp add: stage_def)
        from c4(2) show ?thesis
        proof (cases rule: await_cases)
          case (threw e)
          from ifRequested_inv [OF threw(1) deployAssetStore_Steps inv4] threw(2) show ?thesis
            by (auto simp: stage_def intro: phaseInv_mono)
        next
          case c5: (continued v5 s5)
          from ifRequested_inv [OF c5(1) deployAssetStore_Steps inv4]
          have inv5: "phaseInv d s0 5 None s5" by (simp add: stage_def)
          from c5(2) have "s' = s5"
            by (simp add: throw_def return_def split: if_splits)
          with inv5 show ?thesis
            by (auto intro: phaseInv_pending)
        qed
      qed
    qed
  qed
qed

lemma phaseInv_started: "fresh s \<Longrightarrow> phaseInv d (started s b0) 0 None (started s b0)"
  unfolding phaseInv_def fresh_def started_def
  by (auto simp: recorded_def split: contractKind.splits)

lemma sequence_inv:
  assumes "(if all_flag (ctx s) then deployAll d ch s else deploySelected d ch s) = (r, s')"
    and "phaseInv d s0 0 None s"
  shows "phaseInv d s0 5 (err r) s'"
  using assms by (auto split: if_splits intro: deployAll_inv deploySelected_inv)

lemma provider_getBalance_cases:
  assumes "provider_getBalance ch w s = (r, s')"
  obtains (rejected) m where "r = Inl (RpcError m)"
      and "s' = s\<lparr>net := net s @ [(GetBalance w, Failed m)]\<rparr>"
  | (answered) b where "r = Inr b" and "getBalance ch (net s) w = Inr b"
      and "s' = s\<lparr>net := net s @ [(GetBalance w, Balance b)]\<rparr>"
  using assms unfolding provider_getBalance_def by (auto split: sum.splits)

lemma ctx_started [simp]: "ctx (started s b) = ctx s"
  by (simp add: started_def)

lemma action_cases:
  assumes fresh: "fresh s" and run: "deployCmd_action d ch s = (r, s')"
  obtains
    (first_balance_rejected) m where "r = Inl (RpcError m)"
      and "s' = s\<lparr>net := net s @ [(GetBalance (wallet_address (ctx s)), Failed m)]\<rparr>"
  | (sequence_threw) b0 e where "r = Inl e" and "phaseInv d (started s b0) 5 (Some e) s'"
      and "(if all_flag (ctx s) then deployAll d ch (started s b0)
            else deploySelected d ch (started s b0)) = (Inl e, s')"
  | (second_balance_rejected) b0 s2 m where "phaseInv d (started s b0) 5 None s2"
      and "r = Inl (RpcError m)"
      and "s' = s2\<lparr>net := net s2 @ [(GetBalance (wallet_address (ctx s)), Failed m)]\<rparr>"
      and "(if all_flag (ctx s) then deployAll d ch (started s b0)
            else deploySelected d ch (started s b0)) = (Inr (), s2)"
  | (reported) b0 s2 b1 where "phaseInv d (started s b0) 5 None s2"
      and "if config (ctx s) then createConfig (reported d s2 b0 b1) = (r, s')
           else r = Inr () \<and> s' = reported d s2 b0 b1"
      and "(if all_flag (ctx s) then deployAll d ch (started s b0)
            else deploySelected d ch (started s b0)) = (Inr (), s2)"
  using run unfolding deployCmd_action_def
proof (cases rule: await_cases)
  case (threw e)
  then show ?thesis
    by (cases rule: provider_getBalance_cases) (auto intro: first_balance_rejected)
next
  case c1: (continued startBal sa)
  from c1(1) have sa: "sa = s\<lparr>net := net s @ [(GetBalance (wallet_address (ctx s)), Balance startBal)]\<rparr>"
    by (cases rule: provider_getBalance_cases) auto
  from c1(2) show ?thesis
  proof (cases rule: await_cases)
    case (threw e)
    then show ?thesis by (simp add: console_log_def)
  next
    case c2: (continued u sb)
    then have sb: "sb = started s startBal"
      by (auto simp: console_log_def started_def sa)
    from c2(2) show ?thesis
    proof (cases rule: await_cases)
      case (threw e)
      from threw(1) [unfolded sb]
      have seq: "(if all_flag (ctx s) then deployAll d ch (started s startBal)
          else deploySelected d ch (started s startBal)) = (Inl e, s')"
        by (auto split: if_splits)
      from sequence_inv [OF threw(1) [unfolded sb] phaseInv_started [OF fresh]]
      have "phaseInv d (started s startBal) 5 (Some e) s'" by simp
      with threw(2) show ?thesis using seq by (rule sequence_threw)
    next
      case c3: (continued u2 s2)
      from sequence_inv [OF c3(1) [unfolded sb] phaseInv_started [OF fresh]]
      have inv: "phaseInv d (started s startBal) 5 None s2" by simp
      then have "blank (ctx s2) = blank (ctx (started s startBal))"
        by (simp add: phaseInv_def)
      then have same: "wallet_address (ctx s2) = wallet_address (ctx s)"
          "config (ctx s2) = config (ctx s)"
        by (auto dest: blank_fields simp: started_def)
      from c3(1) [unfolded sb]
      have seq: "(if all_flag (ctx s) then deployAll d ch (started s startBal)
          else deploySelected d ch (started s startBal)) = (Inr (), s2)"
        by (auto split: if_splits)
      from c3(2) show ?thesis
      proof (cases rule: await_cases)
        case (threw e)
        then show ?thesis
          by (cases rule: provider_getBalance_cases)
            (auto intro: second_balance_rejected [OF inv _ _ seq] simp: same)
      next
        case c4: (continued endBal sc)
        from c4(1) have sc: "sc = s2\<lparr>net := net s2 @
            [(GetBalance (wallet_address (ctx s)), Balance endBal)]\<rparr>"
          by (cases rule: provider_getBalance_cases) (auto simp: same)
        from c4(2) have "if config (ctx s)
            then createConfig (reported d s2 startBal endBal) = (r, s')
            else r = Inr () \<and> s' = reported d s2 startBal endBal"
          by (auto simp: prims displayLog_def reported_def sc same split: if_splits)
        with inv show ?thesis using seq by (rule reported)
      qed
    qed
  qed
qed

lemma createConfig_cases:
  assumes "createConfig s = (r, s')"
  obtains (overflow) "2 ^ 53 - 1 < \<bar>gasLimit (ctx s)\<bar> \<or> 2 ^ 53 - 1 < \<bar>gasPrice (ctx s)\<bar>"
      and "r = Inl (LibraryError ''overflow'')" and "s' = s"
  | (emitted) doc where "\<bar>gasLimit (ctx s)\<bar> \<le> 2 ^ 53 - 1" and "\<bar>gasPrice (ctx s)\<bar> \<le> 2 ^ 53 - 1"
      and "r = Inr ()"
      and "s' = s\<lparr>console := console s @
        [Line ''EVM Configuration, please copy this into your ChainBridge config file:'',
         Json doc]\<rparr>"
      and "map_of doc ''startBlock'' = Some (JStr ''0'')"
      and "map_of doc ''http'' = Some (JStr ''false'')"
proof (cases "\<bar>gasLimit (ctx s)\<bar> \<le> 2 ^ 53 - 1 \<and> \<bar>gasPrice (ctx s)\<bar> \<le> 2 ^ 53 - 1")
  case False
  with assms have "r = Inl (LibraryError ''overflow'')" "s' = s"
    by (auto simp: createConfig_def toNumber_def Let_def throw_def split: if_splits)
  with False show ?thesis by (auto intro: overflow)
next
  case True
  let ?doc = "JSON_stringify
             [ (''name'', JStr ''eth''),
               (''chainId'', chainId (ctx s)),
               (''endpoint'', JStr (url (ctx s))),
               (''bridge'', JStr (bridgeAddress (ctx s))),
               (''erc20Handler'', optStr (erc20HandlerContract (ctx s))),
               (''genericHandler'', optStr (genericHandlerContract (ctx s))),
               (''gasLimit'', JNum (gasLimit (ctx s))),
               (''maxGasPrice'', JNum (gasPrice (ctx s))),
               (''startBlock'', JStr ''0''),
               (''http'', JStr ''false''),
               (''relayers'', JArr (relayers (ctx s))) ]"
  from True assms have "r = Inr ()" "s' = s\<lparr>console := console s @
        [Line ''EVM Configuration, please copy this into your ChainBridge config file:'',
         Json ?doc]\<rparr>"
    by (auto simp: createConfig_def toNumber_def Let_def prims)
  moreover have "map_of ?doc ''startBlock'' = Some (JStr ''0'')"
    "map_of ?doc ''http'' = Some (JStr ''false'')"
    by (simp_all add: JSON_stringify_def)
  ultimately show ?thesis using True by (auto intro: emitted)
qed

lemma spec_constructorArgs_cost [simp]:
  "spec_constructorArgs d (a\<lparr>cost := c\<rparr>) k = spec_constructorArgs d a k"
  by (cases k) (simp_all add: spec_constructorArgs_def split: sum.splits)

lemma recorded_cost [simp]: "recorded k (a\<lparr>cost := c\<rparr>) = recorded k a"
  by (cases k) (simp_all add: recorded_def)

lemma entry_ok_cost [simp]: "entry_ok d (a\<lparr>cost := c\<rparr>) n x = entry_ok d a n x"
  by (cases "fst x"; cases "snd x") (simp_all add: entry_ok_def)

lemma trace_ok_Cons_clean:
  "\<not> rejected (snd x) \<Longrightarrow> trace_ok e t \<Longrightarrow> trace_ok e (x # t)"
  by (cases t rule: rev_cases; cases "snd x")
    (auto simp: trace_ok_def butlast_append rejected_def)

lemma after_report:
  assumes "if config (ctx s) then createConfig s3 = (r, s') else r = Inr () \<and> s' = s3"
  obtains extra where "net s' = net s3" and "ctx s' = ctx s3"
    and "console s' = console s3 @ extra" and "\<forall>ls. Summary ls \<notin> set extra"
    and "r = Inr () \<or> r = Inl (LibraryError ''overflow'')"
proof (cases "config (ctx s)")
  case False
  with assms have "r = Inr ()" "s' = s3" by simp_all
  then show ?thesis using that [of "[]"] by simp
next
  case True
  with assms have "createConfig s3 = (r, s')" by simp
  then show ?thesis
  proof (cases rule: createConfig_cases)
    case overflow
    then show ?thesis using that [of "[]"] by simp
  next
    case (emitted doc)
    then show ?thesis
      using that [of "[Line ''EVM Configuration, please copy this into your ChainBridge config file:'',
         Json doc]"] by simp
  qed
qed

lemma run_inv:
  assumes fresh: "fresh s" and run: "deployCmd_action d ch s = (r, s')"
  shows "trace_ok (err r) (net s')"
    and "\<forall>x\<in>set (net s'). isQuery x \<or> entry_ok d (ctx s') 5 x"
    and "erc20HandlerContract (ctx s') \<noteq> None \<or> genericHandlerContract (ctx s') \<noteq> None
         \<longrightarrow> isValidAddress d (bridgeAddress (ctx s'))"
    and "blank ((ctx s')\<lparr>cost := None\<rparr>) = blank (ctx s)"
proof -
  have "trace_ok (err r) (net s') \<and>
    (\<forall>x\<in>set (net s'). isQuery x \<or> entry_ok d (ctx s') 5 x) \<and>
    (erc20HandlerContract (ctx s') \<noteq> None \<or> genericHandlerContract (ctx s') \<noteq> None
         \<longrightarrow> isValidAddress d (bridgeAddress (ctx s'))) \<and>
    blank ((ctx s')\<lparr>cost := None\<rparr>) = blank (ctx s)"
    using fresh run
  proof (cases rule: action_cases)
    case (first_balance_rejected m)
    with fresh show ?thesis
      by (simp add: fresh_def trace_ok_def isQuery_def blank_def)
  next
    case (sequence_threw b0 e)
    from sequence_threw(2) obtain t where
      t: "net s' = net (started s b0) @ t" "\<forall>x\<in>set t. entry_ok d (ctx s') 5 x" "trace_ok (Some e) t"
      and bl: "blank (ctx s') = blank (ctx (started s b0))" "cost (ctx s') = cost (ctx (started s b0))"
      and valid: "erc20HandlerContract (ctx s') \<noteq> None \<or> genericHandlerContract (ctx s') \<noteq> None
         \<longrightarrow> isValidAddress d (bridgeAddress (ctx s'))"
      unfolding phaseInv_def by blast
    have net: "net s' = (GetBalance (wallet_address (ctx s)), Balance b0) # t"
      using t(1) fresh by (simp add: started_def fresh_def)
    have "trace_ok (err r) (net s')"
      unfolding net sequence_threw(1) using t(3)
      by (simp add: trace_ok_Cons_clean rejected_def)
    moreover have "\<forall>x\<in>set (net s'). isQuery x \<or> entry_ok d (ctx s') 5 x"
      using t(2) by (simp add: net isQuery_def)
    moreover have "blank ((ctx s')\<lparr>cost := None\<rparr>) = blank (ctx s)"
    proof -
      have "cost (ctx s') = None" using bl(2) fresh by (simp add: started_def fresh_def)
      then have "(ctx s')\<lparr>cost := None\<rparr> = ctx s'" by simp
      then show ?thesis using bl(1) by (simp add: started_def)
    qed
    ultimately show ?thesis using valid by blast
  next
    case (second_balance_rejected b0 s2 m)
    from second_balance_rejected(1) obtain t where
      t: "net s2 = net (started s b0) @ t" "\<forall>x\<in>set t. entry_ok d (ctx s2) 5 x"
        "\<forall>x\<in>set t. \<not> rejected (snd x)"
      and bl: "blank (ctx s2) = blank (ctx (started s b0))" "cost (ctx s2) = cost (ctx (started s b0))"
      and valid: "erc20HandlerContract (ctx s2) \<noteq> None \<or> genericHandlerContract (ctx s2) \<noteq> None
         \<longrightarrow> isValidAddress d (bridgeAddress (ctx s2))"
      unfolding phaseInv_def trace_ok_None by blast
    have net: "net s' = ((GetBalance (wallet_address (ctx s)), Balance b0) # t) @
        [(GetBalance (wallet_address (ctx s)), Failed m)]"
      using t(1) fresh second_balance_rejected(3) by (simp add: started_def fresh_def)
    have ctx: "ctx s' = ctx s2" using second_balance_rejected(3) by simp
    have "trace_ok (err r) (net s')"
      unfolding net second_balance_rejected(2) using t(3)
      by (simp only: trace_ok_snoc) (simp add: rejected_def)
    moreover have "\<forall>x\<in>set (net s'). isQuery x \<or> entry_ok d (ctx s') 5 x"
      using t(2) by (simp add: net ctx isQuery_def)
    moreover have "blank ((ctx s')\<lparr>cost := None\<rparr>) = blank (ctx s)"
    proof -
      have "cost (ctx s2) = None" using bl(2) fresh by (simp add: started_def fresh_def)
      then have "(ctx s2)\<lparr>cost := None\<rparr> = ctx s2" by simp
      then show ?thesis using bl(1) by (simp add: started_def ctx)
    qed
    ultimately show ?thesis using valid by (simp add: ctx)
  next
    case (reported b0 s2 b1)
    from reported(1) obtain t where
      t: "net s2 = net (started s b0) @ t" "\<forall>x\<in>set t. entry_ok d (ctx s2) 5 x"
        "\<forall>x\<in>set t. \<not> rejected (snd x)"
      and bl: "blank (ctx s2) = blank (ctx (started s b0))"
      and valid: "erc20HandlerContract (ctx s2) \<noteq> None \<or> genericHandlerContract (ctx s2) \<noteq> None
         \<longrightarrow> isValidAddress d (bridgeAddress (ctx s2))"
      unfolding phaseInv_def trace_ok_None by blast
    from reported(2) obtain extra where
      fin: "net s' = net (reported d s2 b0 b1)" "ctx s' = ctx (reported d s2 b0 b1)"
        "r = Inr () \<or> r = Inl (LibraryError ''overflow'')"
      by (rule after_report)
    have same: "wallet_address (ctx s2) = wallet_address (ctx s)"
      using bl by (auto dest: blank_fields simp: started_def)
    have net: "net s' = ((GetBalance (wallet_address (ctx s)), Balance b0) # t) @
        [(GetBalance (wallet_address (ctx s)), Balance b1)]"
      using t(1) fresh fin(1) by (simp add: started_def reported_def fresh_def same)
    have ctx: "ctx s' = (ctx s2)\<lparr>cost := Some (b0 - b1)\<rparr>"
      using fin(2) by (simp add: reported_def)
    have "\<forall>x\<in>set (net s'). \<not> rejected (snd x)"
      using t(3) by (simp add: net rejected_def)
    then have "trace_ok (err r) (net s')" by (rule trace_ok_clean)
    moreover have "\<forall>x\<in>set (net s'). isQuery x \<or> entry_ok d (ctx s') 5 x"
      using t(2) by (simp add: net ctx isQuery_def)
    moreover have "blank ((ctx s')\<lparr>cost := None\<rparr>) = blank (ctx s)"
    proof -
      have "blank ((ctx s2)\<lparr>cost := None\<rparr>) = (blank (ctx s2))\<lparr>cost := None\<rparr>"
        by (simp add: blank_def)
      also have "\<dots> = (blank (ctx s))\<lparr>cost := None\<rparr>"
        using bl by (simp add: started_def)
      also have "\<dots> = blank (ctx s)"
        using fresh by (simp add: blank_def fresh_def)
      finally show ?thesis by (simp add: ctx)
    qed
    ultimately show ?thesis using valid by (simp add: ctx)
  qed
  then show "trace_ok (err r) (net s')"
    and "\<forall>x\<in>set (net s'). isQuery x \<or> entry_ok d (ctx s') 5 x"
    and "erc20HandlerContract (ctx s') \<noteq> None \<or> genericHandlerContract (ctx s') \<noteq> None
         \<longrightarrow> isValidAddress d (bridgeAddress (ctx s'))"
    and "blank ((ctx s')\<lparr>cost := None\<rparr>) = blank (ctx s)"
    by blast+
qed

lemma rejected_is_last:
  assumes "trace_ok e t" and "t = pre @ (c, Failed m) # post"
  shows "post = [] \<and> e = Some (RpcError m)"
proof -
  have "post = []"
  proof (rule ccontr)
    assume "post \<noteq> []"
    then have "(c, Failed m) \<in> set (butlast t)"
      by (simp add: assms(2) butlast_append)
    with assms(1) show False by (auto simp: trace_ok_def rejected_def)
  qed
  with assms show ?thesis by (simp add: trace_ok_def)
qed

lemma grows_return [simp]: "grows (return x)"
  by (simp add: grows_def return_def)

lemma grows_throw [simp]: "grows (throw e)"
  by (simp add: grows_def throw_def)

lemma grows_await: "grows m \<Longrightarrow> (\<And>x. grows (k x)) \<Longrightarrow> grows (await m k)"
  unfolding grows_def
proof (intro allI impI)
  fix s r s'
  assume m: "\<forall>s r s'. m s = (r, s') \<longrightarrow> (\<exists>new. net s' = net s @ new)"
    and k: "\<And>x. \<forall>s r s'. k x s = (r, s') \<longrightarrow> (\<exists>new. net s' = net s @ new)"
    and run: "await m k s = (r, s')"
  from run show "\<exists>new. net s' = net s @ new"
  proof (cases rule: await_cases)
    case (threw e)
    with m show ?thesis by blast
  next
    case (continued x s1)
    from m continued(1) obtain n1 where "net s1 = net s @ n1" by blast
    moreover from k continued(2) obtain n2 where "net s' = net s1 @ n2" by blast
    ultimately have "net s' = net s @ (n1 @ n2)" by simp
    then show ?thesis ..
  qed
qed

lemma grows_Step:
  assumes "\<forall>s r s'. f s = (r, s') \<longrightarrow> Step d k s r s'"
  shows "grows f"
  unfolding grows_def
proof (intro allI impI)
  fix s r s' assume "f s = (r, s')"
  with assms have "Step d k s r s'" by blast
  then show "\<exists>new. net s' = net s @ new"
    by cases auto
qed

lemma grows_deploy [simp]:
  "grows (deployBridgeContract d ch)" "grows (deployERC20Handler d ch)"
  "grows (deployGenericHandler d ch)" "grows (deployERC20 ch)" "grows (deployAssetStore ch)"
  using grows_Step [OF deployBridgeContract_Steps] grows_Step [OF deployERC20Handler_Steps]
    grows_Step [OF deployGenericHandler_Steps] grows_Step [OF deployERC20_Steps]
    grows_Step [OF deployAssetStore_Steps]
  by blast+

lemma grows_ifRequested: "grows f \<Longrightarrow> grows (ifRequested flag f v)"
  unfolding grows_def ifRequested_def
  using grows_await [of f "\<lambda>_. return True", unfolded grows_def]
  by (auto simp: return_def grows_def split: if_splits)

lemma grows_accepted: "grows m \<Longrightarrow> m s = (r, s') \<Longrightarrow> accepted s' \<Longrightarrow> accepted s"
  unfolding grows_def accepted_def by fastforce

lemma Step_accepted:
  assumes "Step d k s r s'" and "accepted s'" and "spec_constructorArgs d (ctx s) k \<noteq> None"
  shows "r = Inr ()"
  using assms by cases (auto simp: accepted_def rejected_def)

text \<open>One deploy function followed by the rest, in a run without rejection.\<close>

lemma deploy_then:
  assumes run: "await f g s = (r, s')"
    and step: "\<forall>s r s'. f s = (r, s') \<longrightarrow> Step d k s r s'"
    and rest: "\<And>x. grows (g x)"
    and acc: "accepted s'"
    and args: "spec_constructorArgs d (ctx s) k \<noteq> None"
  obtains s1 where "Step d k s (Inr ()) s1" and "g () s1 = (r, s')" and "accepted s1"
  using run
proof (cases rule: await_cases)
  case (threw e)
  with step have "Step d k s (Inl e) s'" by blast
  from Step_accepted [OF this acc args] show ?thesis by simp
next
  case (continued x s1)
  from grows_accepted [OF rest continued(2) acc] have acc1: "accepted s1" .
  from step continued(1) have "Step d k s (Inr x) s1" by blast
  with continued(2) acc1 show ?thesis using that by simp
qed

lemma Step_done:
  assumes "Step d k s (Inr ()) s1"
  obtains (skipped) m where "needsBridge k" and "\<not> isValidAddress d (bridgeAddress (ctx s))"
      and "s1 = s\<lparr>console := console s @ [Line m]\<rparr>"
  | (confirmed) as addr m where "needsBridge k \<longrightarrow> isValidAddress d (bridgeAddress (ctx s))"
      and "spec_constructorArgs d (ctx s) k = Some as"
      and "s1 = s\<lparr>net := net s @
          [(Deploy k as (gasPrice (ctx s)) (gasLimit (ctx s)), Created addr),
           (Deployed k addr, Mined)],
        ctx := record_address k addr (ctx s),
        console := console s @ [Line m]\<rparr>"
  using assms by cases auto

lemma Bridge_done:
  assumes "Step d Bridge s (Inr ()) s1" and "parseEther d (toString (fee (ctx s))) = Inr wei"
  obtains addr m where "s1 = s\<lparr>net := net s @
          [(Deploy Bridge
              [chainId (ctx s), JArr (relayers (ctx s)), relayerThreshold (ctx s), JBig wei,
               expiry (ctx s)] (gasPrice (ctx s)) (gasLimit (ctx s)), Created addr),
           (Deployed Bridge addr, Mined)],
        ctx := (ctx s)\<lparr>bridgeAddress := addr\<rparr>,
        console := console s @ [Line m]\<rparr>"
  using assms(1)
proof (cases rule: Step_done)
  case (skipped m)
  then show ?thesis by (simp add: needsBridge_def)
next
  case (confirmed as addr m)
  from confirmed(2) assms(2) have "as = [chainId (ctx s), JArr (relayers (ctx s)),
      relayerThreshold (ctx s), JBig wei, expiry (ctx s)]"
    by (simp add: spec_constructorArgs_def)
  with confirmed(3) show ?thesis
    by (intro that) (simp add: record_address_def)
qed

lemma Erc20Handler_done:
  assumes "Step d Erc20Handler s (Inr ()) s1" and "isValidAddress d (bridgeAddress (ctx s))"
  obtains addr m where "s1 = s\<lparr>net := net s @
          [(Deploy Erc20Handler [JStr (bridgeAddress (ctx s)), JArr [], JArr [], JArr []]
              (gasPrice (ctx s)) (gasLimit (ctx s)), Created addr),
           (Deployed Erc20Handler addr, Mined)],
        ctx := (ctx s)\<lparr>erc20HandlerContract := Some addr\<rparr>,
        console := console s @ [Line m]\<rparr>"
  using assms(1)
proof (cases rule: Step_done)
  case (skipped m)
  with assms(2) show ?thesis by simp
next
  case (confirmed as addr m)
  from confirmed(2) have "as = [JStr (bridgeAddress (ctx s)), JArr [], JArr [], JArr []]"
    by (simp add: spec_constructorArgs_def)
  with confirmed(3) show ?thesis
    by (intro that) (simp add: record_address_def)
qed

lemma GenericHandler_done:
  assumes "Step d GenericHandler s (Inr ()) s1" and "isValidAddress d (bridgeAddress (ctx s))"
  obtains addr m where "s1 = s\<lparr>net := net s @
          [(Deploy GenericHandler
              [JStr (bridgeAddress (ctx s)), JArr [], JArr [], JArr [], JArr []]
              (gasPrice (ctx s)) (gasLimit (ctx s)), Created addr),
           (Deployed GenericHandler addr, Mined)],
        ctx := (ctx s)\<lparr>genericHandlerContract := Some addr\<rparr>,
        console := console s @ [Line m]\<rparr>"
  using assms(1)
proof (cases rule: Step_done)
  case (skipped m)
  with assms(2) show ?thesis by simp
next
  case (confirmed as addr m)
  from confirmed(2)
  have "as = [JStr (bridgeAddress (ctx s)), JArr [], JArr [], JArr [], JArr []]"
    by (simp add: spec_constructorArgs_def)
  with confirmed(3) show ?thesis
    by (intro that) (simp add: record_address_def)
qed

lemma Erc20Mintable_done:
  assumes "Step d Erc20Mintable s (Inr ()) s1"
  obtains addr m where "s1 = s\<lparr>net := net s @
          [(Deploy Erc20Mintable
              [JStr (erc20Name (ctx s)), JStr (erc20Symbol (ctx s)), erc20Decimals (ctx s)]
              (gasPrice (ctx s)) (gasLimit (ctx s)), Created addr),
           (Deployed Erc20Mintable addr, Mined)],
        ctx := (ctx s)\<lparr>erc20Contract := Some addr\<rparr>,
        console := console s @ [Line m]\<rparr>"
  using assms(1)
proof (cases rule: Step_done)
  case (skipped m)
  then show ?thesis by (simp add: needsBridge_def)
next
  case (confirmed as addr m)
  from confirmed(2)
  have "as = [JStr (erc20Name (ctx s)), JStr (erc20Symbol (ctx s)), erc20Decimals (ctx s)]"
    by (simp add: spec_constructorArgs_def)
  with confirmed(3) show ?thesis
    by (intro that) (simp add: record_address_def)
qed

lemma ChainAsset_done:
  assumes "Step d ChainAsset s (Inr ()) s1"
  obtains addr m where "s1 = s\<lparr>net := net s @
          [(Deploy ChainAsset [] (gasPrice (ctx s)) (gasLimit (ctx s)), Created addr),
           (Deployed ChainAsset addr, Mined)],
        ctx := (ctx s)\<lparr>ChainAssetContract := Some addr\<rparr>,
        console := console s @ [Line m]\<rparr>"
  using assms(1)
proof (cases rule: Step_done)
  case (skipped m)
  then show ?thesis by (simp add: needsBridge_def)
next
  case (confirmed as addr m)
  from confirmed(2) have "as = []"
    by (simp add: spec_constructorArgs_def)
  with confirmed(3) show ?thesis
    by (intro that) (simp add: record_address_def)
qed

lemma Step_bridgeAddress:
  assumes "Step d k s r s1" and "k \<noteq> Bridge"
  shows "bridgeAddress (ctx s1) = bridgeAddress (ctx s)"
  using assms by cases (simp_all add: bridgeAddress_record_address)

lemma deployAll_accepted:
  assumes run: "deployAll d ch s = (r, s')"
    and acc: "accepted s'"
    and fee: "parseEther d (toString (fee (ctx s))) = Inr wei"
    and valid: "isValidAddress d (bridgeAddress (ctx s'))"
  shows "\<exists>bridgeAt erc20HandlerAt genericHandlerAt erc20At.
    r = Inr () \<and>
    net s' = net s @
      [(Deploy Bridge
          [chainId (ctx s), JArr (relayers (ctx s)), relayerThreshold (ctx s), JBig wei,
           expiry (ctx s)] (gasPrice (ctx s)) (gasLimit (ctx s)), Created bridgeAt),
       (Deployed Bridge bridgeAt, Mined),
       (Deploy Erc20Handler [JStr bridgeAt, JArr [], JArr [], JArr []]
          (gasPrice (ctx s)) (gasLimit (ctx s)), Created erc20HandlerAt),
       (Deployed Erc20Handler erc20HandlerAt, Mined),
       (Deploy GenericHandler [JStr bridgeAt, JArr [], JArr [], JArr [], JArr []]
          (gasPrice (ctx s)) (gasLimit (ctx s)), Created genericHandlerAt),
       (Deployed GenericHandler genericHandlerAt, Mined),
       (Deploy Erc20Mintable
          [JStr (erc20Name (ctx s)), JStr (erc20Symbol (ctx s)), erc20Decimals (ctx s)]
          (gasPrice (ctx s)) (gasLimit (ctx s)), Created erc20At),
       (Deployed Erc20Mintable erc20At, Mined)] \<and>
    ctx s' = (ctx s)\<lparr>bridgeAddress := bridgeAt, erc20HandlerContract := Some erc20HandlerAt,
      genericHandlerContract := Some genericHandlerAt, erc20Contract := Some erc20At\<rparr>"
proof -
  have args1: "spec_constructorArgs d (ctx s) Bridge \<noteq> None"
    using fee by (simp add: spec_constructorArgs_def)
  from run [unfolded deployAll_def] deployBridgeContract_Steps _ acc args1
  obtain s1 where s1: "Step d Bridge s (Inr ()) s1"
    and run1: "await (deployERC20Handler d ch)
        (\<lambda>_. await (deployGenericHandler d ch) (\<lambda>_. deployERC20 ch)) s1 = (r, s')"
    and acc1: "accepted s1"
    by (rule deploy_then) (intro grows_await grows_deploy)
  from run1 deployERC20Handler_Steps _ acc
  obtain s2 where s2: "Step d Erc20Handler s1 (Inr ()) s2"
    and run2: "await (deployGenericHandler d ch) (\<lambda>_. deployERC20 ch) s2 = (r, s')"
    and acc2: "accepted s2"
    by (rule deploy_then) (simp_all add: grows_await spec_constructorArgs_def)
  from run2 deployGenericHandler_Steps _ acc
  obtain s3 where s3: "Step d GenericHandler s2 (Inr ()) s3"
    and run3: "deployERC20 ch s3 = (r, s')"
    and acc3: "accepted s3"
    by (rule deploy_then) (simp_all add: spec_constructorArgs_def)
  from run3 have "Step d Erc20Mintable s3 r s'" by (rule deployERC20_Step)
  moreover from this acc have r: "r = Inr ()"
    by (rule Step_accepted) (simp add: spec_constructorArgs_def)
  ultimately have s4: "Step d Erc20Mintable s3 (Inr ()) s'" by simp
  from s1 fee obtain a1 m1 where
    st1: "s1 = s\<lparr>net := net s @
          [(Deploy Bridge
              [chainId (ctx s), JArr (relayers (ctx s)), relayerThreshold (ctx s), JBig wei,
               expiry (ctx s)] (gasPrice (ctx s)) (gasLimit (ctx s)), Created a1),
           (Deployed Bridge a1, Mined)],
        ctx := (ctx s)\<lparr>bridgeAddress := a1\<rparr>,
        console := console s @ [Line m1]\<rparr>"
    by (rule Bridge_done)
  from s4 obtain a4 m4 where
    st4: "s' = s3\<lparr>net := net s3 @
          [(Deploy Erc20Mintable
              [JStr (erc20Name (ctx s3)), JStr (erc20Symbol (ctx s3)), erc20Decimals (ctx s3)]
              (gasPrice (ctx s3)) (gasLimit (ctx s3)), Created a4),
           (Deployed Erc20Mintable a4, Mined)],
        ctx := (ctx s3)\<lparr>erc20Contract := Some a4\<rparr>,
        console := console s3 @ [Line m4]\<rparr>"
    by (rule Erc20Mintable_done)
  have b3: "bridgeAddress (ctx s3) = bridgeAddress (ctx s2)"
    using s3 by (rule Step_bridgeAddress) simp
  have b2: "bridgeAddress (ctx s2) = bridgeAddress (ctx s1)"
    using s2 by (rule Step_bridgeAddress) simp
  have v1: "isValidAddress d (bridgeAddress (ctx s1))"
    using valid b2 b3 by (simp add: st4)
  then have v2: "isValidAddress d (bridgeAddress (ctx s2))"
    using b2 by simp
  from s2 v1 obtain a2 m2 where
    st2: "s2 = s1\<lparr>net := net s1 @
          [(Deploy Erc20Handler [JStr (bridgeAddress (ctx s1)), JArr [], JArr [], JArr []]
              (gasPrice (ctx s1)) (gasLimit (ctx s1)), Created a2),
           (Deployed Erc20Handler a2, Mined)],
        ctx := (ctx s1)\<lparr>erc20HandlerContract := Some a2\<rparr>,
        console := console s1 @ [Line m2]\<rparr>"
    by (rule Erc20Handler_done)
  from s3 v2 obtain a3 m3 where
    st3: "s3 = s2\<lparr>net := net s2 @
          [(Deploy GenericHandler
              [JStr (bridgeAddress (ctx s2)), JArr [], JArr [], JArr [], JArr []]
              (gasPrice (ctx s2)) (gasLimit (ctx s2)), Created a3),
           (Deployed GenericHandler a3, Mined)],
        ctx := (ctx s2)\<lparr>genericHandlerContract := Some a3\<rparr>,
        console := console s2 @ [Line m3]\<rparr>"
    by (rule GenericHandler_done)
  show ?thesis
    apply (rule exI [of _ a1], rule exI [of _ a2], rule exI [of _ a3], rule exI [of _ a4])
    apply (simp add: r st4 st3 st2 st1)
    done
qed

text \<open>One optional deploy function followed by the rest, in a run without rejection.\<close>

lemma requested_then:
  assumes run: "await (ifRequested flag f v) g s = (r, s')"
    and step: "\<forall>s r s'. f s = (r, s') \<longrightarrow> Step d k s r s'"
    and rest: "\<And>x. grows (g x)"
    and acc: "accepted s'"
    and args: "spec_constructorArgs d (ctx s) k \<noteq> None"
  obtains s1 where "g (v \<or> flag (ctx s)) s1 = (r, s')" and "accepted s1"
    and "if flag (ctx s) then Step d k s (Inr ()) s1 else s1 = s"
proof (cases "flag (ctx s)")
  case False
  with run have "g v s = (r, s')"
    by (simp add: ifRequested_def await_def return_def)
  moreover from grows_accepted [OF rest this acc] have "accepted s" .
  ultimately show ?thesis using False that [of s] by simp
next
  case True
  with run have "await f (\<lambda>_. g True) s = (r, s')"
    by (simp add: ifRequested_def await_def return_def split: prod.splits sum.splits)
  from this step rest acc args obtain s1 where
    "Step d k s (Inr ()) s1" "g True s1 = (r, s')" "accepted s1"
    by (rule deploy_then)
  with True show ?thesis using that [of s1] by simp
qed

lemma deploySelected_skip:
  assumes run: "deploySelected d ch s = (r, s')" and acc: "accepted s'"
    and nobridge: "\<not> bridge (ctx s)" and requested: "erc20Handler (ctx s)"
    and invalid: "\<not> isValidAddress d (bridgeAddress (ctx s))"
  shows "r = Inr () \<and> bridgeAddress (ctx s') = bridgeAddress (ctx s) \<and>
    Line ''ERC20Handler contract failed to deploy due to invalid bridge address''
      \<in> set (console s') \<and>
    (erc20 (ctx s) \<longrightarrow> (\<exists>addr. erc20Contract (ctx s') = Some addr \<and>
        (Deployed Erc20Mintable addr, Mined) \<in> set (net s'))) \<and>
    (asset (ctx s) \<longrightarrow> (\<exists>addr. ChainAssetContract (ctx s') = Some addr \<and>
        (Deployed ChainAsset addr, Mined) \<in> set (net s')))"
proof -
  let ?diag = "Line ''ERC20Handler contract failed to deploy due to invalid bridge address''"
  let ?sa = "s\<lparr>console := console s @ [?diag]\<rparr>"
  let ?tail = "\<lambda>v4. await (ifRequested asset (deployAssetStore ch) v4)
      (\<lambda>v5. if \<not> v5 then throw NoTargetSpecified else return ())"
  have run_a: "await (ifRequested genericHandler (deployGenericHandler d ch) True)
      (\<lambda>v3. await (ifRequested erc20 (deployERC20 ch) v3) ?tail) ?sa = (r, s')"
    using run nobridge requested invalid
    by (simp add: deploySelected_def ifRequested_def deployERC20Handler_def await_def
        return_def console_log_def Let_def)
  have g_tail: "grows (?tail v)" for v
    by (intro grows_await grows_ifRequested) (simp_all split: if_splits)
  have g_mid: "grows (await (ifRequested erc20 (deployERC20 ch) v) ?tail)" for v
    by (intro grows_await grows_ifRequested g_tail) simp
  from run_a deployGenericHandler_Steps g_mid acc
  obtain sb where run_b: "await (ifRequested erc20 (deployERC20 ch) True) ?tail sb = (r, s')"
    and acc_b: "accepted sb"
    and sb: "if genericHandler (ctx ?sa) then Step d GenericHandler ?sa (Inr ()) sb else sb = ?sa"
    by (rule requested_then [where v = True]) (simp_all add: spec_constructorArgs_def)
  have sb_ctx: "ctx sb = ctx s" and sb_net: "net sb = net s"
    and sb_console: "?diag \<in> set (console sb)"
  proof -
    have "ctx sb = ctx s \<and> net sb = net s \<and> ?diag \<in> set (console sb)"
    proof (cases "genericHandler (ctx ?sa)")
      case False
      with sb show ?thesis by simp
    next
      case True
      with sb have "Step d GenericHandler ?sa (Inr ()) sb" by simp
      then show ?thesis
        using invalid by (cases rule: Step_done) (simp_all add: needsBridge_def)
    qed
    then show "ctx sb = ctx s" "net sb = net s" "?diag \<in> set (console sb)" by simp_all
  qed
  from run_b deployERC20_Steps g_tail acc
  obtain sc where run_c: "?tail True sc = (r, s')"
    and acc_c: "accepted sc"
    and sc: "if erc20 (ctx sb) then Step d Erc20Mintable sb (Inr ()) sc else sc = sb"
    by (rule requested_then [where v = True]) (simp_all add: spec_constructorArgs_def)
  have sc_facts: "bridgeAddress (ctx sc) = bridgeAddress (ctx s) \<and> asset (ctx sc) = asset (ctx s) \<and>
      ?diag \<in> set (console sc) \<and>
      (erc20 (ctx s) \<longrightarrow> (\<exists>addr. erc20Contract (ctx sc) = Some addr \<and>
        (Deployed Erc20Mintable addr, Mined) \<in> set (net sc)))"
  proof (cases "erc20 (ctx sb)")
    case False
    with sc sb_ctx sb_console show ?thesis by simp
  next
    case True
    with sc have "Step d Erc20Mintable sb (Inr ()) sc" by simp
    then obtain addr m where "sc = sb\<lparr>net := net sb @
          [(Deploy Erc20Mintable
              [JStr (erc20Name (ctx sb)), JStr (erc20Symbol (ctx sb)), erc20Decimals (ctx sb)]
              (gasPrice (ctx sb)) (gasLimit (ctx sb)), Created addr),
           (Deployed Erc20Mintable addr, Mined)],
        ctx := (ctx sb)\<lparr>erc20Contract := Some addr\<rparr>,
        console := console sb @ [Line m]\<rparr>"
      by (rule Erc20Mintable_done)
    with sb_ctx sb_console show ?thesis by simp
  qed
  from run_c have run_c': "await (ifRequested asset (deployAssetStore ch) True)
      (\<lambda>v5. if \<not> v5 then throw NoTargetSpecified else return ()) sc = (r, s')" .
  from run_c' deployAssetStore_Steps _ acc
  obtain sd where run_d: "(if \<not> (True \<or> asset (ctx sc)) then throw NoTargetSpecified
        else return ()) sd = (r, s')"
    and sd: "if asset (ctx sc) then Step d ChainAsset sc (Inr ()) sd else sd = sc"
    by (rule requested_then [where v = True])
      (simp_all add: spec_constructorArgs_def split: if_splits)
  from run_d have fin: "r = Inr ()" "s' = sd" by (simp_all add: return_def)
  have "bridgeAddress (ctx sd) = bridgeAddress (ctx s) \<and> ?diag \<in> set (console sd) \<and>
      (erc20 (ctx s) \<longrightarrow> (\<exists>addr. erc20Contract (ctx sd) = Some addr \<and>
        (Deployed Erc20Mintable addr, Mined) \<in> set (net sd))) \<and>
      (asset (ctx s) \<longrightarrow> (\<exists>addr. ChainAssetContract (ctx sd) = Some addr \<and>
        (Deployed ChainAsset addr, Mined) \<in> set (net sd)))"
  proof (cases "asset (ctx sc)")
    case False
    with sd sc_facts show ?thesis by simp
  next
    case True
    with sd have "Step d ChainAsset sc (Inr ()) sd" by simp
    then obtain addr m where "sd = sc\<lparr>net := net sc @
          [(Deploy ChainAsset [] (gasPrice (ctx sc)) (gasLimit (ctx sc)), Created addr),
           (Deployed ChainAsset addr, Mined)],
        ctx := (ctx sc)\<lparr>ChainAssetContract := Some addr\<rparr>,
        console := console sc @ [Line m]\<rparr>"
      by (rule ChainAsset_done)
    with sc_facts show ?thesis by auto
  qed
  with fin show ?thesis by simp
qed

lemma Step_recorded_other:
  assumes "Step d k s r s1" and "k' \<noteq> k"
  shows "recorded k' (ctx s1) = recorded k' (ctx s)"
  using assms by cases (simp_all add: recorded_record_address_other)

lemma Step_recorded_changed:
  assumes "Step d k s r s1" and "recorded k (ctx s1) \<noteq> recorded k (ctx s)"
  shows "needsBridge k \<longrightarrow> isValidAddress d (bridgeAddress (ctx s))"
  using assms by cases simp_all

lemma recorded_handlers [simp]:
  "recorded Erc20Handler a = erc20HandlerContract a"
  "recorded GenericHandler a = genericHandlerContract a"
  by (simp_all add: recorded_def)

lemma Step_benign:
  assumes "Step d k s r s'" and "k \<noteq> Bridge"
  shows "bridgeAddress (ctx s') = bridgeAddress (ctx s)"
    and "set (console s) \<subseteq> set (console s')"
    and "\<forall>e. r = Inl e \<longrightarrow> (\<exists>m. e = RpcError m)"
proof -
  have total: "spec_constructorArgs d (ctx s) k \<noteq> None"
    using assms(2) by (cases k) (simp_all add: spec_constructorArgs_def)
  from assms(1) show "bridgeAddress (ctx s') = bridgeAddress (ctx s)"
    using assms(2) by (rule Step_bridgeAddress)
  from assms(1) show "set (console s) \<subseteq> set (console s')"
    by cases auto
  from assms(1) total show "\<forall>e. r = Inl e \<longrightarrow> (\<exists>m. e = RpcError m)"
    by cases auto
qed

lemma ifRequested_benign:
  assumes run: "ifRequested flag f v s = (r, s1)"
    and step: "\<forall>s r s'. f s = (r, s') \<longrightarrow> Step d k s r s'"
    and k: "k \<noteq> Bridge"
  shows "bridgeAddress (ctx s1) = bridgeAddress (ctx s)"
    and "set (console s) \<subseteq> set (console s1)"
    and "\<forall>e. r = Inl e \<longrightarrow> (\<exists>m. e = RpcError m)"
    and "\<forall>x. r = Inr x \<longrightarrow> x = (v \<or> flag (ctx s))"
proof -
  have "bridgeAddress (ctx s1) = bridgeAddress (ctx s) \<and> set (console s) \<subseteq> set (console s1) \<and>
    (\<forall>e. r = Inl e \<longrightarrow> (\<exists>m. e = RpcError m)) \<and> (\<forall>x. r = Inr x \<longrightarrow> x = (v \<or> flag (ctx s)))"
  proof (cases "flag (ctx s)")
    case False
    with run show ?thesis by (auto simp: ifRequested_def return_def)
  next
    case True
    with run have "await f (\<lambda>_. return True) s = (r, s1)"
      by (simp add: ifRequested_def)
    then show ?thesis
    proof (cases rule: await_cases)
      case (threw e)
      with step have "Step d k s (Inl e) s1" by blast
      from Step_benign [OF this k] threw(2) show ?thesis by simp
    next
      case (continued x s2)
      with step have "Step d k s (Inr x) s2" by blast
      from Step_benign [OF this k] continued(2) True show ?thesis
        by (auto simp: return_def)
    qed
  qed
  then show "bridgeAddress (ctx s1) = bridgeAddress (ctx s)"
    and "set (console s) \<subseteq> set (console s1)"
    and "\<forall>e. r = Inl e \<longrightarrow> (\<exists>m. e = RpcError m)"
    and "\<forall>x. r = Inr x \<longrightarrow> x = (v \<or> flag (ctx s))"
    by blast+
qed

text \<open>
  The explicit selection with the ERC20 handler requested, the bridge not requested and no
  valid bridge address, whatever the chain answers: the bridge address stays, both
  diagnostics are printed where due, and the only possible error is a rejected call.
\<close>

lemma deploySelected_skip_any:
  assumes run: "deploySelected d ch s = (r, s')"
    and nobridge: "\<not> bridge (ctx s)" and requested: "erc20Handler (ctx s)"
    and invalid: "\<not> isValidAddress d (bridgeAddress (ctx s))"
  shows "bridgeAddress (ctx s') = bridgeAddress (ctx s) \<and>
    Line ''ERC20Handler contract failed to deploy due to invalid bridge address''
      \<in> set (console s') \<and>
    (genericHandler (ctx s) \<longrightarrow>
      Line ''GenericHandler contract failed to deploy due to invalid bridge address''
        \<in> set (console s')) \<and>
    (\<forall>e. r = Inl e \<longrightarrow> (\<exists>m. e = RpcError m))"
proof -
  let ?diagE = "Line ''ERC20Handler contract failed to deploy due to invalid bridge address''"
  let ?diagG = "Line ''GenericHandler contract failed to deploy due to invalid bridge address''"
  let ?last = "\<lambda>v5. if \<not> v5 then throw NoTargetSpecified else return ()"
  let ?tail = "\<lambda>v4. await (ifRequested asset (deployAssetStore ch) v4) ?last"
  define sb where "sb = (if genericHandler (ctx s)
      then s\<lparr>console := console s @ [?diagE, ?diagG]\<rparr>
      else s\<lparr>console := console s @ [?diagE]\<rparr>)"
  have run_b: "await (ifRequested erc20 (deployERC20 ch) True) ?tail sb = (r, s')"
    using run nobridge requested invalid
    by (cases "genericHandler (ctx s)")
      (simp_all add: deploySelected_def ifRequested_def deployERC20Handler_def
        deployGenericHandler_def await_def return_def console_log_def Let_def sb_def)
  have sb: "bridgeAddress (ctx sb) = bridgeAddress (ctx s)" "?diagE \<in> set (console sb)"
    "genericHandler (ctx s) \<longrightarrow> ?diagG \<in> set (console sb)"
    by (simp_all add: sb_def)
  from run_b show ?thesis
  proof (cases rule: await_cases)
    case (threw e)
    from ifRequested_benign [OF threw(1) deployERC20_Steps] threw(2) sb
    show ?thesis by auto
  next
    case c4: (continued v4 sc)
    from ifRequested_benign [OF c4(1) deployERC20_Steps]
    have sc: "bridgeAddress (ctx sc) = bridgeAddress (ctx sb)"
      "set (console sb) \<subseteq> set (console sc)" "v4 = True"
      by simp_all
    from c4(2) show ?thesis
    proof (cases rule: await_cases)
      case (threw e)
      from ifRequested_benign [OF threw(1) deployAssetStore_Steps] threw(2) sb sc
      show ?thesis by auto
    next
      case c5: (continued v5 sd)
      from ifRequested_benign [OF c5(1) deployAssetStore_Steps] sc(3)
      have sd: "bridgeAddress (ctx sd) = bridgeAddress (ctx sc)"
        "set (console sc) \<subseteq> set (console sd)" "v5 = True"
        by simp_all
      from c5(2) sd(3) have "r = Inr ()" "s' = sd"
        by (simp_all add: return_def)
      with sb sc sd show ?thesis by auto
    qed
  qed
qed

section \<open>Sample runs\<close>

lemmas run_defs = deployCmd_action_def deployAll_def deploySelected_def ifRequested_def
  deployBridgeContract_def deployERC20Handler_def deployGenericHandler_def deployERC20_def
  deployAssetStore_def displayLog_def createConfig_def toNumber_def prims Let_def
  start_def sample_args_def sample_chain_def sample_deps_def sample_address_def show_int_def
  digit_def

lemma sample_run_all:
  "deployCmd_action sample_deps sample_chain (start (sample_args\<lparr>all_flag := True\<rparr>)) =
   (Inr (),
    \<lparr>ctx = sample_args\<lparr>all_flag := True, bridgeAddress := sample_address Bridge,
        erc20HandlerContract := Some (sample_address Erc20Handler),
        genericHandlerContract := Some (sample_address GenericHandler),
        erc20Contract := Some (sample_address Erc20Mintable), cost := Some 9\<rparr>,
     net =
       [(GetBalance ''0xff'', Balance 1000),
        (Deploy Bridge [JNum 1, JArr [''0xA'', ''0xB''], JNum 2, JBig 0, JNum 100]
           20000000 8000000, Created (sample_address Bridge)),
        (Deployed Bridge (sample_address Bridge), Mined),
        (Deploy Erc20Handler [JStr (sample_address Bridge), JArr [], JArr [], JArr []]
           20000000 8000000, Created (sample_address Erc20Handler)),
        (Deployed Erc20Handler (sample_address Erc20Handler), Mined),
        (Deploy GenericHandler
           [JStr (sample_address Bridge), JArr [], JArr [], JArr [], JArr []]
           20000000 8000000, Created (sample_address GenericHandler)),
        (Deployed GenericHandler (sample_address GenericHandler), Mined),
        (Deploy Erc20Mintable [JStr '''', JStr '''', JNum 18] 20000000 8000000,
           Created (sample_address Erc20Mintable)),
        (Deployed Erc20Mintable (sample_address Erc20Mintable), Mined),
        (GetBalance ''0xff'', Balance 991)],
     console =
       [Line ''Deploying contracts...'',
        Line (check_mark @ '' Bridge contract deployed''),
        Line (check_mark @ '' ERC20Handler contract deployed''),
        Line (check_mark @ '' GenericHandler contract deployed''),
        Line (check_mark @ '' ERC20 contract deployed''),
        Summary (report_lines sample_deps
          (sample_args\<lparr>all_flag := True, bridgeAddress := sample_address Bridge,
             erc20HandlerContract := Some (sample_address Erc20Handler),
             genericHandlerContract := Some (sample_address GenericHandler),
             erc20Contract := Some (sample_address Erc20Mintable), cost := Some 9\<rparr>) 9)]\<rparr>)"
  by (simp add: run_defs)

lemma sample_run_none:
  "deployCmd_action sample_deps sample_chain (start sample_args) =
   (Inl NoTargetSpecified,
    \<lparr>ctx = sample_args, net = [(GetBalance ''0xff'', Balance 1000)],
     console = [Line ''Deploying contracts...'']\<rparr>)"
  by (simp add: run_defs)

lemma sample_run_skip:
  "deployCmd_action sample_deps sample_chain
     (start (sample_args\<lparr>erc20Handler := True, genericHandler := True, erc20 := True\<rparr>)) =
   (Inr (),
    \<lparr>ctx = sample_args\<lparr>erc20Handler := True, genericHandler := True, erc20 := True,
        erc20Contract := Some (sample_address Erc20Mintable), cost := Some 3\<rparr>,
     net =
       [(GetBalance ''0xff'', Balance 1000),
        (Deploy Erc20Mintable [JStr '''', JStr '''', JNum 18] 20000000 8000000,
           Created (sample_address Erc20Mintable)),
        (Deployed Erc20Mintable (sample_address Erc20Mintable), Mined),
        (GetBalance ''0xff'', Balance 997)],
     console =
       [Line ''Deploying contracts...'',
        Line ''ERC20Handler contract failed to deploy due to invalid bridge address'',
        Line ''GenericHandler contract failed to deploy due to invalid bridge address'',
        Line (check_mark @ '' ERC20 contract deployed''),
        Summary (report_lines sample_deps
          (sample_args\<lparr>erc20Handler := True, genericHandler := True, erc20 := True,
             erc20Contract := Some (sample_address Erc20Mintable), cost := Some 3\<rparr>) 3)]\<rparr>)"
  by (simp add: run_defs)

lemma sample_run_skip_big:
  "deployCmd_action sample_deps sample_chain
     (start (sample_args\<lparr>erc20Handler := True, config := True,
        gasLimit := 9007199254740992\<rparr>)) =
   (Inl (LibraryError ''overflow''),
    \<lparr>ctx = sample_args\<lparr>erc20Handler := True, config := True,
        gasLimit := 9007199254740992, cost := Some 1\<rparr>,
     net = [(GetBalance ''0xff'', Balance 1000), (GetBalance ''0xff'', Balance 999)],
     console =
       [Line ''Deploying contracts...'',
        Line ''ERC20Handler contract failed to deploy due to invalid bridge address'',
        Summary (report_lines sample_deps
          (sample_args\<lparr>erc20Handler := True, config := True,
             gasLimit := 9007199254740992, cost := Some 1\<rparr>) 1)]\<rparr>)"
  by (simp add: run_defs)

lemma sample_run_skip_offline:
  "deployCmd_action sample_deps offline_chain
     (start (sample_args\<lparr>erc20Handler := True\<rparr>)) =
   (Inl (RpcError ''connection lost''),
    \<lparr>ctx = sample_args\<lparr>erc20Handler := True\<rparr>,
     net = [(GetBalance ''0xff'', Balance 1000),
            (GetBalance ''0xff'', Failed ''connection lost'')],
     console =
       [Line ''Deploying contracts...'',
        Line ''ERC20Handler contract failed to deploy due to invalid bridge address'']\<rparr>)"
  by (simp add: run_defs offline_chain_def)

lemma sample_run_bad_fee:
  "deployCmd_action sample_deps sample_chain
     (start (sample_args\<lparr>all_flag := True, fee := JStr ''abc''\<rparr>)) =
   (Inl (LibraryError ''invalid decimal value''),
    \<lparr>ctx = sample_args\<lparr>all_flag := True, fee := JStr ''abc''\<rparr>,
     net = [(GetBalance ''0xff'', Balance 1000)],
     console = [Line ''Deploying contracts...'']\<rparr>)"
  by (simp add: run_defs)

lemma sample_run_timeout:
  "deployCmd_action sample_deps timeout_chain (start (sample_args\<lparr>all_flag := True\<rparr>)) =
   (Inl (RpcError ''timeout''),
    \<lparr>ctx = sample_args\<lparr>all_flag := True, bridgeAddress := sample_address Bridge\<rparr>,
     net =
       [(GetBalance ''0xff'', Balance 1000),
        (Deploy Bridge [JNum 1, JArr [''0xA'', ''0xB''], JNum 2, JBig 0, JNum 100]
           20000000 8000000, Created (sample_address Bridge)),
        (Deployed Bridge (sample_address Bridge), Mined),
        (Deploy Erc20Handler [JStr (sample_address Bridge), JArr [], JArr [], JArr []]
           20000000 8000000, Created (sample_address Erc20Handler)),
        (Deployed Erc20Handler (sample_address Erc20Handler), Failed ''timeout'')],
     console =
       [Line ''Deploying contracts...'',
        Line (check_mark @ '' Bridge contract deployed'')]\<rparr>)"
  by (simp add: run_defs timeout_chain_def)

lemma sample_run_big:
  "deployCmd_action sample_deps sample_chain
     (start (sample_args\<lparr>erc20 := True, config := True, gasLimit := 2 ^ 53\<rparr>)) =
   (Inl (LibraryError ''overflow''),
    \<lparr>ctx = sample_args\<lparr>erc20 := True, config := True, gasLimit := 2 ^ 53,
        erc20Contract := Some (sample_address Erc20Mintable), cost := Some 3\<rparr>,
     net =
       [(GetBalance ''0xff'', Balance 1000),
        (Deploy Erc20Mintable [JStr '''', JStr '''', JNum 18] 20000000 (2 ^ 53),
           Created (sample_address Erc20Mintable)),
        (Deployed Erc20Mintable (sample_address Erc20Mintable), Mined),
        (GetBalance ''0xff'', Balance 997)],
     console =
       [Line ''Deploying contracts...'',
        Line (check_mark @ '' ERC20 contract deployed''),
        Summary (report_lines sample_deps
          (sample_args\<lparr>erc20 := True, config := True, gasLimit := 2 ^ 53,
             erc20Contract := Some (sample_address Erc20Mintable), cost := Some 3\<rparr>) 3)]\<rparr>)"
  by (simp add: run_defs)

lemma fresh_start [simp]:
  "fresh (start a) = (erc20HandlerContract a = None \<and> genericHandlerContract a = None \<and>
     erc20Contract a = None \<and> ChainAssetContract a = None \<and> cost a = None)"
  by (simp add: fresh_def start_def)

section \<open>Properties of the command\<close>

text \<open>
  C1, as the code has it: with an explicit selection that requests nothing, the command
  makes exactly one network call, the balance query that precedes the deployment
  sequence, and no contract creation and no confirmation wait: it fails with the error
  \<^verbatim>\<open>must specify --all or specific contracts to deploy\<close> when that query is answered, and
  with the rejection when the query is rejected. The context is unchanged.
\<close>

theorem no_target_specified:
  assumes "net s = []" and "\<not> all_flag (ctx s)" and "\<not> bridge (ctx s)"
    and "\<not> erc20Handler (ctx s)" and "\<not> genericHandler (ctx s)" and "\<not> erc20 (ctx s)"
    and "\<not> asset (ctx s)" and "deployCmd_action d ch s = (r, s')"
  shows "ctx s' = ctx s \<and>
    ((\<exists>b. r = Inl NoTargetSpecified \<and>
        net s' = [(GetBalance (wallet_address (ctx s)), Balance b)]) \<or>
     (\<exists>m. r = Inl (RpcError m) \<and>
        net s' = [(GetBalance (wallet_address (ctx s)), Failed m)]))"
  using assms
  unfolding deployCmd_action_def deploySelected_def ifRequested_def prims
  by (auto split: sum.splits)

theorem no_target_specified_counterexample:
  "\<not> all_flag sample_args \<and> \<not> bridge sample_args \<and> \<not> erc20Handler sample_args \<and>
   \<not> genericHandler sample_args \<and> \<not> erc20 sample_args \<and> \<not> asset sample_args \<and>
   net (start sample_args) = [] \<and>
   fst (deployCmd_action sample_deps sample_chain (start sample_args)) = Inl NoTargetSpecified \<and>
   net (snd (deployCmd_action sample_deps sample_chain (start sample_args))) =
     [(GetBalance ''0xff'', Balance 1000)] \<and>
   net (snd (deployCmd_action sample_deps sample_chain (start sample_args))) \<noteq> []"
  by (simp add: sample_run_none) (simp add: sample_args_def start_def)

theorem no_target_specified_witness:
  "net (start sample_args) = [] \<and>
   ctx (snd (deployCmd_action sample_deps sample_chain (start sample_args))) = sample_args \<and>
   ((\<exists>b. fst (deployCmd_action sample_deps sample_chain (start sample_args)) =
          Inl NoTargetSpecified \<and>
        net (snd (deployCmd_action sample_deps sample_chain (start sample_args))) =
          [(GetBalance ''0xff'', Balance b)]) \<or>
    (\<exists>m. fst (deployCmd_action sample_deps sample_chain (start sample_args)) =
          Inl (RpcError m) \<and>
        net (snd (deployCmd_action sample_deps sample_chain (start sample_args))) =
          [(GetBalance ''0xff'', Failed m)]))"
proof -
  define R where "R = deployCmd_action sample_deps sample_chain (start sample_args)"
  have run: "deployCmd_action sample_deps sample_chain (start sample_args) = (fst R, snd R)"
    by (simp add: R_def)
  have flags: "net (start sample_args) = []" "\<not> all_flag (ctx (start sample_args))"
    "\<not> bridge (ctx (start sample_args))" "\<not> erc20Handler (ctx (start sample_args))"
    "\<not> genericHandler (ctx (start sample_args))" "\<not> erc20 (ctx (start sample_args))"
    "\<not> asset (ctx (start sample_args))"
    by (simp_all add: start_def sample_args_def)
  have w: "wallet_address (ctx (start sample_args)) = ''0xff''"
    "ctx (start sample_args) = sample_args"
    by (simp_all add: start_def sample_args_def)
  have wa: "wallet_address sample_args = ''0xff''"
    by (simp add: sample_args_def)
  from no_target_specified [OF flags run] flags(1) show ?thesis
    unfolding R_def w by (simp add: wa)
qed

text \<open>
  C2, as the code has it: in a run with \<^verbatim>\<open>--all\<close> in which no call is rejected, the fee converts and the
  address returned for the bridge is valid, exactly four contracts are created, in the
  order Bridge, ERC20Handler, GenericHandler, ERC20 token, each confirmed before the next
  is created; the first constructor argument of both handlers is the address returned by
  the bridge creation, which is also the bridge address of the final context.
\<close>

theorem deploy_all_order:
  assumes fresh: "fresh s" and all: "all_flag (ctx s)"
    and run: "deployCmd_action d ch s = (r, s')"
    and noreject: "\<forall>x\<in>set (net s'). \<not> rejected (snd x)"
    and fee: "parseEther d (toString (fee (ctx s))) = Inr wei"
    and valid: "isValidAddress d (bridgeAddress (ctx s'))"
  shows "\<exists>b0 b1 bridgeAt erc20HandlerAt genericHandlerAt erc20At.
    net s' =
      [(GetBalance (wallet_address (ctx s)), Balance b0),
       (Deploy Bridge
          [chainId (ctx s), JArr (relayers (ctx s)), relayerThreshold (ctx s), JBig wei,
           expiry (ctx s)] (gasPrice (ctx s)) (gasLimit (ctx s)), Created bridgeAt),
       (Deployed Bridge bridgeAt, Mined),
       (Deploy Erc20Handler [JStr bridgeAt, JArr [], JArr [], JArr []]
          (gasPrice (ctx s)) (gasLimit (ctx s)), Created erc20HandlerAt),
       (Deployed Erc20Handler erc20HandlerAt, Mined),
       (Deploy GenericHandler [JStr bridgeAt, JArr [], JArr [], JArr [], JArr []]
          (gasPrice (ctx s)) (gasLimit (ctx s)), Created genericHandlerAt),
       (Deployed GenericHandler genericHandlerAt, Mined),
       (Deploy Erc20Mintable
          [JStr (erc20Name (ctx s)), JStr (erc20Symbol (ctx s)), erc20Decimals (ctx s)]
          (gasPrice (ctx s)) (gasLimit (ctx s)), Created erc20At),
       (Deployed Erc20Mintable erc20At, Mined),
       (GetBalance (wallet_address (ctx s)), Balance b1)] \<and>
    bridgeAddress (ctx s') = bridgeAt \<and>
    erc20HandlerContract (ctx s') = Some erc20HandlerAt \<and>
    genericHandlerContract (ctx s') = Some genericHandlerAt \<and>
    erc20Contract (ctx s') = Some erc20At"
proof -
  have acc: "accepted s'" using noreject by (simp add: accepted_def)
  have fee0: "parseEther d (toString (fee (ctx (started s b)))) = Inr wei" for b
    using fee by simp
  from fresh run show ?thesis
  proof (cases rule: action_cases)
    case (first_balance_rejected m)
    with acc show ?thesis by (simp add: accepted_def rejected_def)
  next
    case (sequence_threw b0 e)
    from sequence_threw(3) all have "deployAll d ch (started s b0) = (Inl e, s')" by simp
    from deployAll_accepted [OF this acc fee0 valid] show ?thesis by simp
  next
    case (second_balance_rejected b0 s2 m)
    with acc show ?thesis by (simp add: accepted_def rejected_def)
  next
    case (reported b0 s2 b1)
    from reported(2) obtain extra where
      fin: "net s' = net (reported d s2 b0 b1)" "ctx s' = ctx (reported d s2 b0 b1)"
      by (rule after_report)
    from reported(3) all have seq: "deployAll d ch (started s b0) = (Inr (), s2)" by simp
    have acc2: "accepted s2"
      using acc fin(1) by (simp add: accepted_def reported_def)
    have valid2: "isValidAddress d (bridgeAddress (ctx s2))"
      using valid fin(2) by (simp add: reported_def)
    from deployAll_accepted [OF seq acc2 fee0 valid2]
    obtain a1 a2 a3 a4 where
      net2: "net s2 = net (started s b0) @
        [(Deploy Bridge
          [chainId (ctx s), JArr (relayers (ctx s)), relayerThreshold (ctx s), JBig wei,
           expiry (ctx s)] (gasPrice (ctx s)) (gasLimit (ctx s)), Created a1),
         (Deployed Bridge a1, Mined),
         (Deploy Erc20Handler [JStr a1, JArr [], JArr [], JArr []]
          (gasPrice (ctx s)) (gasLimit (ctx s)), Created a2),
         (Deployed Erc20Handler a2, Mined),
         (Deploy GenericHandler [JStr a1, JArr [], JArr [], JArr [], JArr []]
          (gasPrice (ctx s)) (gasLimit (ctx s)), Created a3),
         (Deployed GenericHandler a3, Mined),
         (Deploy Erc20Mintable
          [JStr (erc20Name (ctx s)), JStr (erc20Symbol (ctx s)), erc20Decimals (ctx s)]
          (gasPrice (ctx s)) (gasLimit (ctx s)), Created a4),
         (Deployed Erc20Mintable a4, Mined)]"
      and ctx2: "ctx s2 = (ctx s)\<lparr>bridgeAddress := a1, erc20HandlerContract := Some a2,
        genericHandlerContract := Some a3, erc20Contract := Some a4\<rparr>"
      by auto
    have "net (started s b0) = [(GetBalance (wallet_address (ctx s)), Balance b0)]"
      using fresh by (simp add: started_def fresh_def)
    with net2 ctx2 fin show ?thesis
      by (simp add: reported_def)
  qed
qed

theorem deploy_all_order_counterexample:
  "all_flag (ctx (start (sample_args\<lparr>all_flag := True, fee := JStr ''abc''\<rparr>))) \<and>
   fst (deployCmd_action sample_deps sample_chain
     (start (sample_args\<lparr>all_flag := True, fee := JStr ''abc''\<rparr>))) =
     Inl (LibraryError ''invalid decimal value'') \<and>
   net (snd (deployCmd_action sample_deps sample_chain
     (start (sample_args\<lparr>all_flag := True, fee := JStr ''abc''\<rparr>)))) =
     [(GetBalance ''0xff'', Balance 1000)] \<and>
   all_flag (ctx (start (sample_args\<lparr>all_flag := True\<rparr>))) \<and>
   fst (deployCmd_action sample_deps timeout_chain (start (sample_args\<lparr>all_flag := True\<rparr>))) =
     Inl (RpcError ''timeout'') \<and>
   net (snd (deployCmd_action sample_deps timeout_chain
     (start (sample_args\<lparr>all_flag := True\<rparr>)))) =
     [(GetBalance ''0xff'', Balance 1000),
      (Deploy Bridge [JNum 1, JArr [''0xA'', ''0xB''], JNum 2, JBig 0, JNum 100]
         20000000 8000000, Created (sample_address Bridge)),
      (Deployed Bridge (sample_address Bridge), Mined),
      (Deploy Erc20Handler [JStr (sample_address Bridge), JArr [], JArr [], JArr []]
         20000000 8000000, Created (sample_address Erc20Handler)),
      (Deployed Erc20Handler (sample_address Erc20Handler), Failed ''timeout'')]"
  by (simp add: sample_run_bad_fee sample_run_timeout) (simp add: start_def)

theorem deploy_all_order_witness:
  "all_flag (ctx (start (sample_args\<lparr>all_flag := True\<rparr>))) \<and>
   isValidAddress sample_deps (bridgeAddress (ctx (snd (deployCmd_action sample_deps
     sample_chain (start (sample_args\<lparr>all_flag := True\<rparr>)))))) \<and>
   length (net (snd (deployCmd_action sample_deps sample_chain
     (start (sample_args\<lparr>all_flag := True\<rparr>))))) = 10 \<and>
   erc20HandlerContract (ctx (snd (deployCmd_action sample_deps sample_chain
     (start (sample_args\<lparr>all_flag := True\<rparr>))))) \<noteq> None"
proof -
  let ?s = "start (sample_args\<lparr>all_flag := True\<rparr>)"
  define R where "R = deployCmd_action sample_deps sample_chain ?s"
  have run: "deployCmd_action sample_deps sample_chain ?s = (fst R, snd R)"
    by (simp add: R_def)
  have fresh: "fresh ?s" by (simp add: sample_args_def)
  have all: "all_flag (ctx ?s)" by (simp add: start_def)
  have noreject: "\<forall>x\<in>set (net (snd R)). \<not> rejected (snd x)"
    by (simp add: R_def sample_run_all rejected_def)
  have fee: "parseEther sample_deps (toString (fee (ctx ?s))) = Inr 0"
    by (simp add: start_def sample_args_def sample_deps_def show_int_def digit_def)
  have valid: "isValidAddress sample_deps (bridgeAddress (ctx (snd R)))"
    by (simp add: R_def sample_run_all) (simp add: sample_deps_def sample_address_def)
  from deploy_all_order [OF fresh all run noreject fee valid]
  have "length (net (snd R)) = 10" "erc20HandlerContract (ctx (snd R)) \<noteq> None"
    by auto
  with all valid show ?thesis unfolding R_def by simp
qed

text \<open>
  C3. A handler address is set only where a valid bridge address is in the context. In a
  run of the command, if a handler field is set at the end, or a handler creation appears
  in the trace, then the bridge address of the final context is valid. Function by
  function: \<^verbatim>\<open>deployERC20Handler\<close> and \<^verbatim>\<open>deployGenericHandler\<close> change their own field only
  from a state whose bridge address passed \<^verbatim>\<open>isValidAddress\<close>, and leave the bridge
  address and the other handler field as they were; the other three deploy functions
  change neither handler field. The chain of the run is arbitrary and a rejected call
  ends the run in the state in which it was made, so the first part speaks of the state
  at every call of the sequence, not only of the state after the last one.
\<close>

theorem handler_needs_valid_bridge:
  "(fresh s \<and> deployCmd_action d ch s = (r, s') \<and>
      (erc20HandlerContract (ctx s') \<noteq> None \<or> genericHandlerContract (ctx s') \<noteq> None \<or>
       (\<exists>as gp gl rep. (Deploy Erc20Handler as gp gl, rep) \<in> set (net s')) \<or>
       (\<exists>as gp gl rep. (Deploy GenericHandler as gp gl, rep) \<in> set (net s')))
     \<longrightarrow> isValidAddress d (bridgeAddress (ctx s'))) \<and>
   (deployERC20Handler d ch t = (r1, t1) \<longrightarrow>
      (erc20HandlerContract (ctx t1) \<noteq> erc20HandlerContract (ctx t)
         \<longrightarrow> isValidAddress d (bridgeAddress (ctx t))) \<and>
      bridgeAddress (ctx t1) = bridgeAddress (ctx t) \<and>
      genericHandlerContract (ctx t1) = genericHandlerContract (ctx t)) \<and>
   (deployGenericHandler d ch t = (r2, t2) \<longrightarrow>
      (genericHandlerContract (ctx t2) \<noteq> genericHandlerContract (ctx t)
         \<longrightarrow> isValidAddress d (bridgeAddress (ctx t))) \<and>
      bridgeAddress (ctx t2) = bridgeAddress (ctx t) \<and>
      erc20HandlerContract (ctx t2) = erc20HandlerContract (ctx t)) \<and>
   (deployBridgeContract d ch t = (r3, t3) \<longrightarrow>
      erc20HandlerContract (ctx t3) = erc20HandlerContract (ctx t) \<and>
      genericHandlerContract (ctx t3) = genericHandlerContract (ctx t)) \<and>
   (deployERC20 ch t = (r4, t4) \<longrightarrow>
      erc20HandlerContract (ctx t4) = erc20HandlerContract (ctx t) \<and>
      genericHandlerContract (ctx t4) = genericHandlerContract (ctx t)) \<and>
   (deployAssetStore ch t = (r5, t5) \<longrightarrow>
      erc20HandlerContract (ctx t5) = erc20HandlerContract (ctx t) \<and>
      genericHandlerContract (ctx t5) = genericHandlerContract (ctx t))"
proof (intro conjI impI)
  assume a: "fresh s \<and> deployCmd_action d ch s = (r, s') \<and>
      (erc20HandlerContract (ctx s') \<noteq> None \<or> genericHandlerContract (ctx s') \<noteq> None \<or>
       (\<exists>as gp gl rep. (Deploy Erc20Handler as gp gl, rep) \<in> set (net s')) \<or>
       (\<exists>as gp gl rep. (Deploy GenericHandler as gp gl, rep) \<in> set (net s')))"
  then have fresh: "fresh s" and run: "deployCmd_action d ch s = (r, s')" by simp_all
  have created: "isValidAddress d (bridgeAddress (ctx s'))"
    if "(Deploy k as gp gl, rep) \<in> set (net s')" and "needsBridge k" for k as gp gl rep
  proof -
    from run_inv(2) [OF fresh run] that(1)
    have "entry_ok d (ctx s') 5 (Deploy k as gp gl, rep)"
      by (fastforce simp: isQuery_def)
    with that(2) show ?thesis by (simp add: entry_ok_def)
  qed
  from a run_inv(3) [OF fresh run] created show "isValidAddress d (bridgeAddress (ctx s'))"
    by (auto simp: needsBridge_def)
next
  assume "deployERC20Handler d ch t = (r1, t1)"
  then have st: "Step d Erc20Handler t r1 t1" by (rule deployERC20Handler_Step)
  from Step_recorded_changed [OF st]
  show "erc20HandlerContract (ctx t1) \<noteq> erc20HandlerContract (ctx t)
      \<Longrightarrow> isValidAddress d (bridgeAddress (ctx t))"
    by (simp add: needsBridge_def)
  from Step_bridgeAddress [OF st] show "bridgeAddress (ctx t1) = bridgeAddress (ctx t)" by simp
  from Step_recorded_other [OF st, of GenericHandler]
  show "genericHandlerContract (ctx t1) = genericHandlerContract (ctx t)" by simp
next
  assume "deployGenericHandler d ch t = (r2, t2)"
  then have st: "Step d GenericHandler t r2 t2" by (rule deployGenericHandler_Step)
  from Step_recorded_changed [OF st]
  show "genericHandlerContract (ctx t2) \<noteq> genericHandlerContract (ctx t)
      \<Longrightarrow> isValidAddress d (bridgeAddress (ctx t))"
    by (simp add: needsBridge_def)
  from Step_bridgeAddress [OF st] show "bridgeAddress (ctx t2) = bridgeAddress (ctx t)" by simp
  from Step_recorded_other [OF st, of Erc20Handler]
  show "erc20HandlerContract (ctx t2) = erc20HandlerContract (ctx t)" by simp
next
  assume "deployBridgeContract d ch t = (r3, t3)"
  then have st: "Step d Bridge t r3 t3" by (rule deployBridgeContract_Step)
  from Step_recorded_other [OF st, of Erc20Handler]
  show "erc20HandlerContract (ctx t3) = erc20HandlerContract (ctx t)" by simp
  from Step_recorded_other [OF st, of GenericHandler]
  show "genericHandlerContract (ctx t3) = genericHandlerContract (ctx t)" by simp
next
  assume "deployERC20 ch t = (r4, t4)"
  then have st: "Step d Erc20Mintable t r4 t4" by (rule deployERC20_Step)
  from Step_recorded_other [OF st, of Erc20Handler]
  show "erc20HandlerContract (ctx t4) = erc20HandlerContract (ctx t)" by simp
  from Step_recorded_other [OF st, of GenericHandler]
  show "genericHandlerContract (ctx t4) = genericHandlerContract (ctx t)" by simp
next
  assume "deployAssetStore ch t = (r5, t5)"
  then have st: "Step d ChainAsset t r5 t5" by (rule deployAssetStore_Step)
  from Step_recorded_other [OF st, of Erc20Handler]
  show "erc20HandlerContract (ctx t5) = erc20HandlerContract (ctx t)" by simp
  from Step_recorded_other [OF st, of GenericHandler]
  show "genericHandlerContract (ctx t5) = genericHandlerContract (ctx t)" by simp
qed

theorem handler_needs_valid_bridge_witness:
  "fresh (start (sample_args\<lparr>all_flag := True\<rparr>)) \<and>
   erc20HandlerContract (ctx (snd (deployCmd_action sample_deps sample_chain
     (start (sample_args\<lparr>all_flag := True\<rparr>))))) \<noteq> None \<and>
   isValidAddress sample_deps (bridgeAddress (ctx (snd (deployCmd_action sample_deps
     sample_chain (start (sample_args\<lparr>all_flag := True\<rparr>))))))"
proof -
  let ?s = "start (sample_args\<lparr>all_flag := True\<rparr>)"
  define R where "R = deployCmd_action sample_deps sample_chain ?s"
  have run: "deployCmd_action sample_deps sample_chain ?s = (fst R, snd R)"
    by (simp add: R_def)
  have fresh: "fresh ?s" by (simp add: sample_args_def)
  have set: "erc20HandlerContract (ctx (snd R)) \<noteq> None"
    by (simp add: R_def sample_run_all)
  from handler_needs_valid_bridge [of ?s sample_deps sample_chain "fst R" "snd R", THEN conjunct1]
    fresh run set
  have "isValidAddress sample_deps (bridgeAddress (ctx (snd R)))" by blast
  with fresh set show ?thesis unfolding R_def by simp
qed

text \<open>
  C4, as the code has it: an explicit selection that requests the ERC20 handler and not
  the bridge, with no valid bridge address in the context. In every run, whatever the
  chain answers, both handler fields stay unassigned and no handler creation is issued;
  once the opening balance query is answered the diagnostic line of the ERC20 handler is
  printed, and that of the generic handler when it is requested too. The skip throws
  nothing: the only errors of such a run are a rejected call and, with \<^verbatim>\<open>--config\<close>, a gas
  value that does not fit a plain number. Where no call is rejected and the gas values
  fit, the command returns without error and the token and the asset store, when
  requested, are deployed and recorded.
\<close>

theorem handler_skip_is_not_fatal:
  assumes fresh: "fresh s" and explicit: "\<not> all_flag (ctx s)" and nobridge: "\<not> bridge (ctx s)"
    and requested: "erc20Handler (ctx s)"
    and invalid: "\<not> isValidAddress d (bridgeAddress (ctx s))"
    and run: "deployCmd_action d ch s = (r, s')"
  shows "erc20HandlerContract (ctx s') = None \<and> genericHandlerContract (ctx s') = None \<and>
    (\<forall>k as gp gl rep. (Deploy k as gp gl, rep) \<in> set (net s')
        \<longrightarrow> k \<noteq> Erc20Handler \<and> k \<noteq> GenericHandler) \<and>
    ((\<exists>b rest. net s' = (GetBalance (wallet_address (ctx s)), Balance b) # rest) \<longrightarrow>
      Line ''ERC20Handler contract failed to deploy due to invalid bridge address''
        \<in> set (console s') \<and>
      (genericHandler (ctx s) \<longrightarrow>
        Line ''GenericHandler contract failed to deploy due to invalid bridge address''
          \<in> set (console s'))) \<and>
    (r = Inr () \<or> (\<exists>m. r = Inl (RpcError m)) \<or>
     (config (ctx s) \<and>
      \<not> (\<bar>gasLimit (ctx s)\<bar> \<le> 2 ^ 53 - 1 \<and> \<bar>gasPrice (ctx s)\<bar> \<le> 2 ^ 53 - 1) \<and>
      r = Inl (LibraryError ''overflow''))) \<and>
    ((\<forall>x\<in>set (net s'). \<not> rejected (snd x)) \<and>
     (config (ctx s) \<longrightarrow>
        \<bar>gasLimit (ctx s)\<bar> \<le> 2 ^ 53 - 1 \<and> \<bar>gasPrice (ctx s)\<bar> \<le> 2 ^ 53 - 1)
     \<longrightarrow> r = Inr () \<and>
       (erc20 (ctx s) \<longrightarrow> (\<exists>addr. erc20Contract (ctx s') = Some addr \<and>
          (Deployed Erc20Mintable addr, Mined) \<in> set (net s'))) \<and>
       (asset (ctx s) \<longrightarrow> (\<exists>addr. ChainAssetContract (ctx s') = Some addr \<and>
          (Deployed ChainAsset addr, Mined) \<in> set (net s'))))"
proof -
  let ?diagE = "Line ''ERC20Handler contract failed to deploy due to invalid bridge address''"
  let ?diagG = "Line ''GenericHandler contract failed to deploy due to invalid bridge address''"
  let ?range = "\<bar>gasLimit (ctx s)\<bar> \<le> 2 ^ 53 - 1 \<and> \<bar>gasPrice (ctx s)\<bar> \<le> 2 ^ 53 - 1"
  have unset: "erc20HandlerContract (ctx s') = None \<and> genericHandlerContract (ctx s') = None \<and>
      (\<forall>k as gp gl rep. (Deploy k as gp gl, rep) \<in> set (net s')
          \<longrightarrow> k \<noteq> Erc20Handler \<and> k \<noteq> GenericHandler)"
    if same: "bridgeAddress (ctx s') = bridgeAddress (ctx s)"
  proof -
    have bad: "\<not> isValidAddress d (bridgeAddress (ctx s'))"
      using invalid same by simp
    have "k \<noteq> Erc20Handler \<and> k \<noteq> GenericHandler"
      if "(Deploy k as gp gl, rep) \<in> set (net s')" for k as gp gl rep
    proof -
      from run_inv(2) [OF fresh run] that
      have "entry_ok d (ctx s') 5 (Deploy k as gp gl, rep)"
        by (fastforce simp: isQuery_def)
      with bad show ?thesis by (auto simp: entry_ok_def needsBridge_def)
    qed
    with run_inv(3) [OF fresh run] bad show ?thesis by blast
  qed
  from fresh run show ?thesis
  proof (cases rule: action_cases)
    case (first_balance_rejected m)
    then have "bridgeAddress (ctx s') = bridgeAddress (ctx s)" by simp
    from unset [OF this] first_balance_rejected fresh show ?thesis
      by (simp add: fresh_def rejected_def)
  next
    case (sequence_threw b0 e)
    from sequence_threw(3) explicit
    have seq: "deploySelected d ch (started s b0) = (Inl e, s')" by simp
    from deploySelected_skip_any [OF seq] nobridge requested invalid
    have any: "bridgeAddress (ctx s') = bridgeAddress (ctx s)" "?diagE \<in> set (console s')"
      "genericHandler (ctx s) \<longrightarrow> ?diagG \<in> set (console s')" "\<exists>m. e = RpcError m"
      by simp_all
    have cond: "r = Inr ()" if "\<forall>x\<in>set (net s'). \<not> rejected (snd x)"
    proof -
      from that have "accepted s'" by (simp add: accepted_def)
      from deploySelected_skip [OF seq this] nobridge requested invalid
      show ?thesis by simp
    qed
    from unset [OF any(1)] any sequence_threw(1) cond show ?thesis by auto
  next
    case (second_balance_rejected b0 s2 m)
    from second_balance_rejected(4) explicit
    have seq: "deploySelected d ch (started s b0) = (Inr (), s2)" by simp
    from deploySelected_skip_any [OF seq] nobridge requested invalid
    have any: "bridgeAddress (ctx s2) = bridgeAddress (ctx s)" "?diagE \<in> set (console s2)"
      "genericHandler (ctx s) \<longrightarrow> ?diagG \<in> set (console s2)"
      by simp_all
    have "bridgeAddress (ctx s') = bridgeAddress (ctx s)"
      using any(1) second_balance_rejected(3) by simp
    from unset [OF this] any second_balance_rejected(2,3) show ?thesis
      by (auto simp: rejected_def)
  next
    case (reported b0 s2 b1)
    from reported(3) explicit
    have seq: "deploySelected d ch (started s b0) = (Inr (), s2)" by simp
    from deploySelected_skip_any [OF seq] nobridge requested invalid
    have any: "bridgeAddress (ctx s2) = bridgeAddress (ctx s)" "?diagE \<in> set (console s2)"
      "genericHandler (ctx s) \<longrightarrow> ?diagG \<in> set (console s2)"
      by simp_all
    from reported(2) obtain extra where
      fin: "net s' = net (reported d s2 b0 b1)" "ctx s' = ctx (reported d s2 b0 b1)"
        "console s' = console (reported d s2 b0 b1) @ extra"
      by (rule after_report)
    from reported(1) have "blank (ctx s2) = blank (ctx (started s b0))"
      by (simp add: phaseInv_def)
    then have gas: "gasLimit (ctx s2) = gasLimit (ctx s)" "gasPrice (ctx s2) = gasPrice (ctx s)"
      by (auto dest: blank_fields)
    have r: "r = Inr () \<or> (config (ctx s) \<and> \<not> ?range \<and> r = Inl (LibraryError ''overflow''))"
    proof (cases "config (ctx s)")
      case False
      with reported(2) show ?thesis by simp
    next
      case True
      with reported(2) have "createConfig (reported d s2 b0 b1) = (r, s')" by simp
      then show ?thesis
        using True gas by (cases rule: createConfig_cases) (auto simp: reported_def)
    qed
    have same: "bridgeAddress (ctx s') = bridgeAddress (ctx s)"
      using any(1) fin(2) by (simp add: reported_def)
    have diags: "?diagE \<in> set (console s')"
      "genericHandler (ctx s) \<longrightarrow> ?diagG \<in> set (console s')"
      using any(2,3) fin(3) by (auto simp: reported_def)
    have rest: "(erc20 (ctx s) \<longrightarrow> (\<exists>addr. erc20Contract (ctx s') = Some addr \<and>
          (Deployed Erc20Mintable addr, Mined) \<in> set (net s'))) \<and>
       (asset (ctx s) \<longrightarrow> (\<exists>addr. ChainAssetContract (ctx s') = Some addr \<and>
          (Deployed ChainAsset addr, Mined) \<in> set (net s')))"
      if "\<forall>x\<in>set (net s'). \<not> rejected (snd x)"
    proof -
      from that fin(1) have "accepted s2" by (simp add: accepted_def reported_def)
      from deploySelected_skip [OF seq this] nobridge requested invalid fin(1,2)
      show ?thesis by (auto simp: reported_def)
    qed
    from unset [OF same] diags r rest show ?thesis by auto
  qed
qed

theorem handler_skip_is_not_fatal_counterexample:
  "\<not> all_flag sample_args \<and> \<not> bridge sample_args \<and> \<not> genericHandler sample_args \<and>
   \<not> erc20 sample_args \<and> \<not> asset sample_args \<and> bridgeAddress sample_args = [] \<and>
   fst (deployCmd_action sample_deps sample_chain
     (start (sample_args\<lparr>erc20Handler := True, config := True,
        gasLimit := 9007199254740992\<rparr>))) = Inl (LibraryError ''overflow'') \<and>
   fst (deployCmd_action sample_deps offline_chain
     (start (sample_args\<lparr>erc20Handler := True\<rparr>))) = Inl (RpcError ''connection lost'')"
  by (simp add: sample_run_skip_big sample_run_skip_offline) (simp add: sample_args_def)

theorem handler_skip_is_not_fatal_witness:
  "\<not> isValidAddress sample_deps (bridgeAddress (ctx (start
      (sample_args\<lparr>erc20Handler := True, genericHandler := True, erc20 := True\<rparr>)))) \<and>
   fst (deployCmd_action sample_deps sample_chain (start
      (sample_args\<lparr>erc20Handler := True, genericHandler := True, erc20 := True\<rparr>))) =
     Inr () \<and>
   erc20HandlerContract (ctx (snd (deployCmd_action sample_deps sample_chain (start
      (sample_args\<lparr>erc20Handler := True, genericHandler := True, erc20 := True\<rparr>))))) =
     None \<and>
   genericHandlerContract (ctx (snd (deployCmd_action sample_deps sample_chain (start
      (sample_args\<lparr>erc20Handler := True, genericHandler := True, erc20 := True\<rparr>))))) =
     None \<and>
   Line ''ERC20Handler contract failed to deploy due to invalid bridge address''
     \<in> set (console (snd (deployCmd_action sample_deps sample_chain (start
      (sample_args\<lparr>erc20Handler := True, genericHandler := True, erc20 := True\<rparr>))))) \<and>
   Line ''GenericHandler contract failed to deploy due to invalid bridge address''
     \<in> set (console (snd (deployCmd_action sample_deps sample_chain (start
      (sample_args\<lparr>erc20Handler := True, genericHandler := True, erc20 := True\<rparr>))))) \<and>
   (\<exists>addr. erc20Contract (ctx (snd (deployCmd_action sample_deps sample_chain (start
      (sample_args\<lparr>erc20Handler := True, genericHandler := True, erc20 := True\<rparr>))))) =
     Some addr)"
proof -
  let ?s = "start (sample_args\<lparr>erc20Handler := True, genericHandler := True, erc20 := True\<rparr>)"
  define R where "R = deployCmd_action sample_deps sample_chain ?s"
  have run: "deployCmd_action sample_deps sample_chain ?s = (fst R, snd R)"
    by (simp add: R_def)
  have fresh: "fresh ?s" by (simp add: sample_args_def)
  have flags: "\<not> all_flag (ctx ?s)" "\<not> bridge (ctx ?s)" "erc20Handler (ctx ?s)"
    by (simp_all add: start_def sample_args_def)
  have invalid: "\<not> isValidAddress sample_deps (bridgeAddress (ctx ?s))"
    by (simp add: start_def sample_args_def sample_deps_def)
  have answered: "\<exists>b rest. net (snd R) = (GetBalance (wallet_address (ctx ?s)), Balance b) # rest"
    by (simp add: R_def sample_run_skip) (simp add: start_def sample_args_def)
  have noreject: "\<forall>x\<in>set (net (snd R)). \<not> rejected (snd x)"
    by (simp add: R_def sample_run_skip rejected_def)
  have gas: "config (ctx ?s) \<longrightarrow>
      \<bar>gasLimit (ctx ?s)\<bar> \<le> 2 ^ 53 - 1 \<and> \<bar>gasPrice (ctx ?s)\<bar> \<le> 2 ^ 53 - 1"
    by (simp add: start_def sample_args_def)
  have requested: "genericHandler (ctx ?s)" "erc20 (ctx ?s)" by (simp_all add: start_def)
  from handler_skip_is_not_fatal [OF fresh flags invalid run] answered noreject gas requested
  have "fst R = Inr ()" "erc20HandlerContract (ctx (snd R)) = None"
    "genericHandlerContract (ctx (snd R)) = None"
    "Line ''ERC20Handler contract failed to deploy due to invalid bridge address''
      \<in> set (console (snd R))"
    "Line ''GenericHandler contract failed to deploy due to invalid bridge address''
      \<in> set (console (snd R))"
    "\<exists>addr. erc20Contract (ctx (snd R)) = Some addr"
    by blast+
  with invalid show ?thesis unfolding R_def by simp
qed

text \<open>
  C5. Every contract creation of a run carries the argument list of the table for its
  kind and the gas price and gas limit of the context: the bridge gets the chain id, the
  relayers, the threshold, the fee converted by \<^verbatim>\<open>parseEther\<close> and the expiry; a handler
  gets the bridge address of the context and three (ERC20) or four (generic) empty lists;
  the token gets name, symbol and decimals; the asset store gets nothing.
\<close>

theorem constructor_arguments:
  assumes fresh: "fresh s" and run: "deployCmd_action d ch s = (r, s')"
    and created: "(Deploy k as gp gl, rep) \<in> set (net s')"
  shows "spec_constructorArgs d (ctx s') k = Some as \<and>
    gp = gasPrice (ctx s) \<and> gl = gasLimit (ctx s) \<and>
    (case k of
       Bridge \<Rightarrow> \<exists>wei. parseEther d (toString (fee (ctx s))) = Inr wei \<and>
         as = [chainId (ctx s), JArr (relayers (ctx s)), relayerThreshold (ctx s), JBig wei,
               expiry (ctx s)]
     | Erc20Handler \<Rightarrow> as = [JStr (bridgeAddress (ctx s')), JArr [], JArr [], JArr []]
     | GenericHandler \<Rightarrow>
         as = [JStr (bridgeAddress (ctx s')), JArr [], JArr [], JArr [], JArr []]
     | Erc20Mintable \<Rightarrow>
         as = [JStr (erc20Name (ctx s)), JStr (erc20Symbol (ctx s)), erc20Decimals (ctx s)]
     | ChainAsset \<Rightarrow> as = [])"
proof -
  have ok: "entry_ok d (ctx s') 5 (Deploy k as gp gl, rep)"
    using run_inv(2) [OF fresh run] created by (fastforce simp: isQuery_def)
  then have 1: "spec_constructorArgs d (ctx s') k = Some as"
    and 2: "gp = gasPrice (ctx s')" "gl = gasLimit (ctx s')"
    by (simp_all add: entry_ok_def)
  have "blank ((ctx s')\<lparr>cost := None\<rparr>) = blank (ctx s)"
    by (rule run_inv(4) [OF fresh run])
  from blank_fields [OF this]
  have same: "gasPrice (ctx s') = gasPrice (ctx s)" "gasLimit (ctx s') = gasLimit (ctx s)"
    "chainId (ctx s') = chainId (ctx s)" "relayers (ctx s') = relayers (ctx s)"
    "relayerThreshold (ctx s') = relayerThreshold (ctx s)" "fee (ctx s') = fee (ctx s)"
    "expiry (ctx s') = expiry (ctx s)" "erc20Name (ctx s') = erc20Name (ctx s)"
    "erc20Symbol (ctx s') = erc20Symbol (ctx s)" "erc20Decimals (ctx s') = erc20Decimals (ctx s)"
    by simp_all
  from 1 same have "case k of
       Bridge \<Rightarrow> \<exists>wei. parseEther d (toString (fee (ctx s))) = Inr wei \<and>
         as = [chainId (ctx s), JArr (relayers (ctx s)), relayerThreshold (ctx s), JBig wei,
               expiry (ctx s)]
     | Erc20Handler \<Rightarrow> as = [JStr (bridgeAddress (ctx s')), JArr [], JArr [], JArr []]
     | GenericHandler \<Rightarrow>
         as = [JStr (bridgeAddress (ctx s')), JArr [], JArr [], JArr [], JArr []]
     | Erc20Mintable \<Rightarrow>
         as = [JStr (erc20Name (ctx s)), JStr (erc20Symbol (ctx s)), erc20Decimals (ctx s)]
     | ChainAsset \<Rightarrow> as = []"
    by (cases k) (auto simp: spec_constructorArgs_def split: sum.splits)
  with 1 2 same show ?thesis by simp
qed

theorem constructor_arguments_witness:
  "spec_constructorArgs sample_deps
     (ctx (snd (deployCmd_action sample_deps sample_chain
       (start (sample_args\<lparr>all_flag := True\<rparr>))))) Erc20Handler =
     Some [JStr (sample_address Bridge), JArr [], JArr [], JArr []] \<and>
   gasPrice (ctx (start (sample_args\<lparr>all_flag := True\<rparr>))) = 20000000"
proof -
  let ?s = "start (sample_args\<lparr>all_flag := True\<rparr>)"
  define R where "R = deployCmd_action sample_deps sample_chain ?s"
  have run: "deployCmd_action sample_deps sample_chain ?s = (fst R, snd R)"
    by (simp add: R_def)
  have fresh: "fresh ?s" by (simp add: sample_args_def)
  have created: "(Deploy Erc20Handler [JStr (sample_address Bridge), JArr [], JArr [], JArr []]
      20000000 8000000, Created (sample_address Erc20Handler)) \<in> set (net (snd R))"
    by (simp add: R_def sample_run_all)
  from constructor_arguments [OF fresh run created]
  have "spec_constructorArgs sample_deps (ctx (snd R)) Erc20Handler =
      Some [JStr (sample_address Bridge), JArr [], JArr [], JArr []]"
    "20000000 = gasPrice (ctx ?s)"
    by simp_all
  then show ?thesis unfolding R_def by simp
qed

text \<open>
  C6. In every run of the command that prints the report, the trace starts with an answered
  balance query and ends with an answered balance query, with no balance query in between;
  the cost in the context is the first answer minus the last, as integers, and the cost
  line of the report is that difference formatted by \<^verbatim>\<open>formatEther\<close>.
\<close>

theorem reported_cost:
  assumes fresh: "fresh s" and run: "deployCmd_action d ch s = (r, s')"
    and report: "Summary ls \<in> set (console s')"
  shows "\<exists>b0 b1 mid.
    net s' = (GetBalance (wallet_address (ctx s)), Balance b0) # mid @
      [(GetBalance (wallet_address (ctx s)), Balance b1)] \<and>
    (\<forall>x\<in>set mid. \<not> isQuery x) \<and>
    cost (ctx s') = Some (b0 - b1) \<and>
    ls ! 6 = ''Deploy Cost: '' @ formatEther d (b0 - b1)"
  using fresh run
proof (cases rule: action_cases)
  case (first_balance_rejected m)
  with fresh report show ?thesis by (simp add: fresh_def)
next
  case (sequence_threw b0 e)
  then obtain ms where "console s' = console (started s b0) @ map Line ms"
    unfolding phaseInv_def by blast
  with fresh report show ?thesis by (auto simp: started_def fresh_def)
next
  case (second_balance_rejected b0 s2 m)
  then obtain ms where "console s2 = console (started s b0) @ map Line ms"
    unfolding phaseInv_def by blast
  with fresh report second_balance_rejected(3) show ?thesis
    by (auto simp: started_def fresh_def)
next
  case (reported b0 s2 b1)
  from reported(1) obtain t ms where
    t: "net s2 = net (started s b0) @ t" "\<forall>x\<in>set t. entry_ok d (ctx s2) 5 x"
    and ms: "console s2 = console (started s b0) @ map Line ms"
    and bl: "blank (ctx s2) = blank (ctx (started s b0))"
    unfolding phaseInv_def by blast
  from reported(2) obtain extra where
    fin: "net s' = net (reported d s2 b0 b1)" "ctx s' = ctx (reported d s2 b0 b1)"
      "console s' = console (reported d s2 b0 b1) @ extra" "\<forall>ls. Summary ls \<notin> set extra"
    by (rule after_report)
  have same: "wallet_address (ctx s2) = wallet_address (ctx s)"
    using bl by (auto dest: blank_fields simp: started_def)
  have "ls = report_lines d ((ctx s2)\<lparr>cost := Some (b0 - b1)\<rparr>) (b0 - b1)"
    using report fin(3,4) ms fresh by (auto simp: reported_def started_def fresh_def)
  then have line: "ls ! 6 = ''Deploy Cost: '' @ formatEther d (b0 - b1)"
    by (simp add: report_lines_def)
  have net: "net s' = (GetBalance (wallet_address (ctx s)), Balance b0) # t @
      [(GetBalance (wallet_address (ctx s)), Balance b1)]"
    using t(1) fresh fin(1) by (simp add: started_def reported_def fresh_def same)
  have mid: "\<forall>x\<in>set t. \<not> isQuery x"
    using t(2) by (auto simp: entry_ok_def isQuery_def split: call.splits)
  have "cost (ctx s') = Some (b0 - b1)"
    using fin(2) by (simp add: reported_def)
  with net mid line show ?thesis by blast
qed

theorem reported_cost_witness:
  "\<exists>ls b0 b1 mid.
     Summary ls \<in> set (console (snd (deployCmd_action sample_deps sample_chain
       (start (sample_args\<lparr>all_flag := True\<rparr>))))) \<and>
     net (snd (deployCmd_action sample_deps sample_chain
       (start (sample_args\<lparr>all_flag := True\<rparr>)))) =
       (GetBalance ''0xff'', Balance b0) # mid @ [(GetBalance ''0xff'', Balance b1)] \<and>
     cost (ctx (snd (deployCmd_action sample_deps sample_chain
       (start (sample_args\<lparr>all_flag := True\<rparr>))))) = Some (b0 - b1) \<and>
     ls ! 6 = ''Deploy Cost: '' @ formatEther sample_deps (b0 - b1)"
proof -
  let ?s = "start (sample_args\<lparr>all_flag := True\<rparr>)"
  let ?ls = "report_lines sample_deps
          (sample_args\<lparr>all_flag := True, bridgeAddress := sample_address Bridge,
             erc20HandlerContract := Some (sample_address Erc20Handler),
             genericHandlerContract := Some (sample_address GenericHandler),
             erc20Contract := Some (sample_address Erc20Mintable), cost := Some 9\<rparr>) 9"
  define R where "R = deployCmd_action sample_deps sample_chain ?s"
  have run: "deployCmd_action sample_deps sample_chain ?s = (fst R, snd R)"
    by (simp add: R_def)
  have fresh: "fresh ?s" by (simp add: sample_args_def)
  have report: "Summary ?ls \<in> set (console (snd R))"
    by (simp add: R_def sample_run_all)
  have w: "wallet_address (ctx ?s) = ''0xff''"
    by (simp add: start_def sample_args_def)
  from reported_cost [OF fresh run report] report show ?thesis
    unfolding R_def w by blast
qed

text \<open>
  C7. If a call to the chain is rejected in a run of the command (a contract creation, a
  wait for confirmation, or a balance query), it is the last call of the run and the run
  fails with that rejection. The context is kept: every contract whose confirmation
  succeeded before has its address in the field of its kind in the final context.
\<close>

theorem rpc_failure_is_fatal:
  assumes fresh: "fresh s" and run: "deployCmd_action d ch s = (r, s')"
    and failed: "net s' = pre @ (c, Failed m) # post"
  shows "post = [] \<and> r = Inl (RpcError m) \<and>
    (\<forall>k addr. (Deployed k addr, Mined) \<in> set (net s') \<longrightarrow> recorded k (ctx s') = Some addr)"
proof -
  from rejected_is_last [OF run_inv(1) [OF fresh run] failed]
  have "post = []" "err r = Some (RpcError m)" by simp_all
  then have 1: "post = [] \<and> r = Inl (RpcError m)"
    by (cases r) simp_all
  have "recorded k (ctx s') = Some addr" if "(Deployed k addr, Mined) \<in> set (net s')" for k addr
    using run_inv(2) [OF fresh run] that
    by (fastforce simp: isQuery_def entry_ok_def)
  with 1 show ?thesis by blast
qed

theorem rpc_failure_is_fatal_witness:
  "fst (deployCmd_action sample_deps timeout_chain (start (sample_args\<lparr>all_flag := True\<rparr>))) =
     Inl (RpcError ''timeout'') \<and>
   recorded Bridge (ctx (snd (deployCmd_action sample_deps timeout_chain
     (start (sample_args\<lparr>all_flag := True\<rparr>))))) = Some (sample_address Bridge)"
proof -
  let ?s = "start (sample_args\<lparr>all_flag := True\<rparr>)"
  define R where "R = deployCmd_action sample_deps timeout_chain ?s"
  have run: "deployCmd_action sample_deps timeout_chain ?s = (fst R, snd R)"
    by (simp add: R_def)
  have fresh: "fresh ?s" by (simp add: sample_args_def)
  have failed: "net (snd R) =
      [(GetBalance ''0xff'', Balance 1000),
       (Deploy Bridge [JNum 1, JArr [''0xA'', ''0xB''], JNum 2, JBig 0, JNum 100]
          20000000 8000000, Created (sample_address Bridge)),
       (Deployed Bridge (sample_address Bridge), Mined),
       (Deploy Erc20Handler [JStr (sample_address Bridge), JArr [], JArr [], JArr []]
          20000000 8000000, Created (sample_address Erc20Handler))] @
      (Deployed Erc20Handler (sample_address Erc20Handler), Failed ''timeout'') # []"
    by (simp add: R_def sample_run_timeout)
  have confirmed: "(Deployed Bridge (sample_address Bridge), Mined) \<in> set (net (snd R))"
    by (simp add: R_def sample_run_timeout)
  from rpc_failure_is_fatal [OF fresh run failed] confirmed
  have "fst R = Inl (RpcError ''timeout'')"
    "recorded Bridge (ctx (snd R)) = Some (sample_address Bridge)"
    by blast+
  then show ?thesis unfolding R_def by simp
qed

text \<open>
  C8. For a context in which no contract address is set (the bridge address is the empty
  default, the four contract fields are unassigned) and the cost is assigned,
  \<^verbatim>\<open>displayLog\<close> does not throw and prints the report whose five address lines read
  \<^verbatim>\<open>Not Deployed\<close>.
\<close>

theorem displayLog_not_deployed:
  assumes "bridgeAddress (ctx s) = []" and "erc20HandlerContract (ctx s) = None"
    and "genericHandlerContract (ctx s) = None" and "erc20Contract (ctx s) = None"
    and "ChainAssetContract (ctx s) = None" and "cost (ctx s) = Some c"
  shows "displayLog d s =
      (Inr (), s\<lparr>console := console s @ [Summary (report_lines d (ctx s) c)]\<rparr>) \<and>
    length (report_lines d (ctx s) c) = 29 \<and>
    report_lines d (ctx s) c ! 18 = ''Bridge:             Not Deployed'' \<and>
    report_lines d (ctx s) c ! 20 = ''Erc20 Handler:      Not Deployed'' \<and>
    report_lines d (ctx s) c ! 22 = ''Generic Handler:    Not Deployed'' \<and>
    report_lines d (ctx s) c ! 24 = ''Erc20:              Not Deployed'' \<and>
    report_lines d (ctx s) c ! 26 = ''Chain Asset:   Not Deployed''"
proof -
  have "displayLog d s =
      (Inr (), s\<lparr>console := console s @ [Summary (report_lines d (ctx s) c)]\<rparr>)"
    using assms(6) by (simp add: displayLog_def console_log_def)
  moreover have "length (report_lines d (ctx s) c) = 29"
    by (simp add: report_lines_def)
  moreover have "report_lines d (ctx s) c ! 18 = ''Bridge:             Not Deployed''"
    using assms(1) by (simp add: report_lines_def orNotDeployed_def)
  moreover have "report_lines d (ctx s) c ! 20 = ''Erc20 Handler:      Not Deployed''"
    using assms(2) by (simp add: report_lines_def orNotDeployed_def)
  moreover have "report_lines d (ctx s) c ! 22 = ''Generic Handler:    Not Deployed''"
    using assms(3) by (simp add: report_lines_def orNotDeployed_def)
  moreover have "report_lines d (ctx s) c ! 24 = ''Erc20:              Not Deployed''"
    using assms(4) by (simp add: report_lines_def orNotDeployed_def)
  moreover have "report_lines d (ctx s) c ! 26 = ''Chain Asset:   Not Deployed''"
    using assms(5) by (simp add: report_lines_def orNotDeployed_def)
  ultimately show ?thesis by blast
qed

theorem displayLog_not_deployed_witness:
  "fst (displayLog sample_deps (start (sample_args\<lparr>cost := Some 0\<rparr>))) = Inr () \<and>
   report_lines sample_deps (sample_args\<lparr>cost := Some 0\<rparr>) 0 ! 18 =
     ''Bridge:             Not Deployed'' \<and>
   report_lines sample_deps (sample_args\<lparr>cost := Some 0\<rparr>) 0 ! 26 =
     ''Chain Asset:   Not Deployed''"
  using displayLog_not_deployed [of "start (sample_args\<lparr>cost := Some 0\<rparr>)" 0 sample_deps]
  by (simp add: start_def sample_args_def)

text \<open>
  C9. Whatever the context, the configuration document that \<^verbatim>\<open>createConfig\<close> prints has
  the property \<^verbatim>\<open>startBlock\<close> with value \<^verbatim>\<open>"0"\<close> and the property \<^verbatim>\<open>http\<close> with value
  \<^verbatim>\<open>"false"\<close>; a document is printed whenever both gas values fit a plain number.
\<close>

theorem createConfig_fixed_fields:
  "(\<bar>gasLimit (ctx s)\<bar> \<le> 2 ^ 53 - 1 \<and> \<bar>gasPrice (ctx s)\<bar> \<le> 2 ^ 53 - 1
      \<longrightarrow> fst (createConfig s) = Inr ()) \<and>
   (\<forall>s'. createConfig s = (Inr (), s') \<longrightarrow>
      (\<exists>doc. console s' = console s @
          [Line ''EVM Configuration, please copy this into your ChainBridge config file:'',
           Json doc] \<and>
        map_of doc ''startBlock'' = Some (JStr ''0'') \<and>
        map_of doc ''http'' = Some (JStr ''false'')))"
proof (intro conjI impI allI)
  assume range: "\<bar>gasLimit (ctx s)\<bar> \<le> 2 ^ 53 - 1 \<and> \<bar>gasPrice (ctx s)\<bar> \<le> 2 ^ 53 - 1"
  obtain r s' where run: "createConfig s = (r, s')" by (cases "createConfig s")
  from run show "fst (createConfig s) = Inr ()"
    using range by (cases rule: createConfig_cases) (auto simp: run)
next
  fix s' assume "createConfig s = (Inr (), s')"
  then show "\<exists>doc. console s' = console s @
          [Line ''EVM Configuration, please copy this into your ChainBridge config file:'',
           Json doc] \<and>
        map_of doc ''startBlock'' = Some (JStr ''0'') \<and>
        map_of doc ''http'' = Some (JStr ''false'')"
    by (cases rule: createConfig_cases) auto
qed

theorem createConfig_fixed_fields_witness:
  "fst (createConfig (start sample_args)) = Inr () \<and>
   (\<exists>doc. console (snd (createConfig (start sample_args))) =
        [Line ''EVM Configuration, please copy this into your ChainBridge config file:'',
         Json doc] \<and>
      map_of doc ''startBlock'' = Some (JStr ''0'') \<and>
      map_of doc ''http'' = Some (JStr ''false''))"
proof -
  have range: "\<bar>gasLimit (ctx (start sample_args))\<bar> \<le> 2 ^ 53 - 1 \<and>
      \<bar>gasPrice (ctx (start sample_args))\<bar> \<le> 2 ^ 53 - 1"
    by (simp add: start_def sample_args_def)
  have ok: "fst (createConfig (start sample_args)) = Inr ()"
    using createConfig_fixed_fields [of "start sample_args"] range by blast
  then have "createConfig (start sample_args) = (Inr (), snd (createConfig (start sample_args)))"
    by (metis prod.collapse)
  then have "\<exists>doc. console (snd (createConfig (start sample_args))) =
        console (start sample_args) @
        [Line ''EVM Configuration, please copy this into your ChainBridge config file:'',
         Json doc] \<and>
      map_of doc ''startBlock'' = Some (JStr ''0'') \<and>
      map_of doc ''http'' = Some (JStr ''false'')"
    using createConfig_fixed_fields [of "start sample_args"] by blast
  with ok show ?thesis by (simp add: start_def)
qed

text \<open>
  C10. \<^verbatim>\<open>createConfig\<close> is not total: when the gas limit or the gas price exceeds
  \<open>2 ^ 53 - 1\<close> it throws and prints nothing. In a run with \<^verbatim>\<open>--config\<close> and such a gas
  value that reaches the report (the deployment sequence and both balance queries
  succeeded with these gas parameters), the command fails with that overflow and no
  configuration document is printed.
\<close>

theorem createConfig_not_total:
  assumes fresh: "fresh s" and cfg: "config (ctx s)"
    and big: "2 ^ 53 - 1 < gasLimit (ctx s) \<or> 2 ^ 53 - 1 < gasPrice (ctx s)"
    and run: "deployCmd_action d ch s = (r, s')"
    and report: "Summary ls \<in> set (console s')"
  shows "createConfig s = (Inl (LibraryError ''overflow''), s) \<and>
    r = Inl (LibraryError ''overflow'') \<and> (\<forall>doc. Json doc \<notin> set (console s'))"
proof -
  have first: "createConfig s = (Inl (LibraryError ''overflow''), s)"
  proof -
    obtain r0 s0 where c: "createConfig s = (r0, s0)" by (cases "createConfig s")
    from c show ?thesis using big by (cases rule: createConfig_cases) (auto simp: c)
  qed
  have "r = Inl (LibraryError ''overflow'') \<and> (\<forall>doc. Json doc \<notin> set (console s'))"
    using fresh run
  proof (cases rule: action_cases)
    case (first_balance_rejected m)
    with fresh report show ?thesis by (simp add: fresh_def)
  next
    case (sequence_threw b0 e)
    then obtain ms where "console s' = console (started s b0) @ map Line ms"
      unfolding phaseInv_def by blast
    with fresh report show ?thesis by (auto simp: started_def fresh_def)
  next
    case (second_balance_rejected b0 s2 m)
    then obtain ms where "console s2 = console (started s b0) @ map Line ms"
      unfolding phaseInv_def by blast
    with fresh report second_balance_rejected(3) show ?thesis
      by (auto simp: started_def fresh_def)
  next
    case (reported b0 s2 b1)
    from reported(1) obtain ms where
      ms: "console s2 = console (started s b0) @ map Line ms"
      and bl: "blank (ctx s2) = blank (ctx (started s b0))"
      unfolding phaseInv_def by blast
    have same: "gasLimit (ctx s2) = gasLimit (ctx s)" "gasPrice (ctx s2) = gasPrice (ctx s)"
      using bl by (auto dest: blank_fields simp: started_def)
    from reported(2) cfg have "createConfig (reported d s2 b0 b1) = (r, s')" by simp
    then show ?thesis
    proof (cases rule: createConfig_cases)
      case overflow
      then show ?thesis
        using ms fresh by (auto simp: reported_def started_def fresh_def)
    next
      case (emitted doc)
      from emitted(1,2) big same have False by (auto simp: reported_def)
      then show ?thesis ..
    qed
  qed
  with first show ?thesis by simp
qed

theorem createConfig_not_total_witness:
  "config (ctx (start (sample_args\<lparr>erc20 := True, config := True, gasLimit := 2 ^ 53\<rparr>))) \<and>
   2 ^ 53 - 1 <
     gasLimit (ctx (start (sample_args\<lparr>erc20 := True, config := True, gasLimit := 2 ^ 53\<rparr>))) \<and>
   (\<exists>addr. erc20Contract (ctx (snd (deployCmd_action sample_deps sample_chain
     (start (sample_args\<lparr>erc20 := True, config := True, gasLimit := 2 ^ 53\<rparr>))))) =
       Some addr) \<and>
   fst (deployCmd_action sample_deps sample_chain
     (start (sample_args\<lparr>erc20 := True, config := True, gasLimit := 2 ^ 53\<rparr>))) =
     Inl (LibraryError ''overflow'')"
proof -
  let ?s = "start (sample_args\<lparr>erc20 := True, config := True, gasLimit := 2 ^ 53\<rparr>)"
  let ?ls = "report_lines sample_deps
          (sample_args\<lparr>erc20 := True, config := True, gasLimit := 2 ^ 53,
             erc20Contract := Some (sample_address Erc20Mintable), cost := Some 3\<rparr>) 3"
  define R where "R = deployCmd_action sample_deps sample_chain ?s"
  have run: "deployCmd_action sample_deps sample_chain ?s = (fst R, snd R)"
    by (simp add: R_def)
  have fresh: "fresh ?s" by (simp add: sample_args_def)
  have cfg: "config (ctx ?s)" by (simp add: start_def)
  have big: "2 ^ 53 - 1 < gasLimit (ctx ?s) \<or> 2 ^ 53 - 1 < gasPrice (ctx ?s)"
    by (simp add: start_def)
  have big1: "2 ^ 53 - 1 < gasLimit (ctx ?s)"
    by (simp add: start_def)
  have report: "Summary ?ls \<in> set (console (snd R))"
    by (simp only: R_def sample_run_big) simp
  have deployed: "\<exists>addr. erc20Contract (ctx (snd R)) = Some addr"
    by (simp only: R_def sample_run_big) simp
  from createConfig_not_total [OF fresh cfg big run report]
  have "fst R = Inl (LibraryError ''overflow'')" by simp
  with cfg big1 deployed show ?thesis unfolding R_def by simp
qed

end
